theory Spec2Isabelle
  imports Main
begin

section \<open>mediaweb: a directory tree served over HTTP\<close>

text \<open>
  A shallow embedding of \<^verbatim>\<open>mediaweb.go\<close>: the three handlers \<^verbatim>\<open>handleDir\<close>,
  \<^verbatim>\<open>handleFile\<close>, \<^verbatim>\<open>handleDownload\<close> and the router \<^verbatim>\<open>handlerFunc\<close>.
  Go strings are byte sequences, so paths, file contents and response bodies are all
  \<^typ>\<open>string\<close>. A Go \<^verbatim>\<open>error\<close> is only ever turned into its text
  (\<^verbatim>\<open>err.Error()\<close>), so an error value carries that text.
\<close>

datatype error = Error (message: string)

subsection \<open>Path functions of the standard library (package path/filepath, Unix)\<close>

text \<open>
  The handlers call \<^verbatim>\<open>filepath.Clean\<close> (through \<^verbatim>\<open>Join\<close> and \<^verbatim>\<open>Abs\<close>),
  \<^verbatim>\<open>filepath.Join\<close>, \<^verbatim>\<open>filepath.Abs\<close>, \<^verbatim>\<open>filepath.HasPrefix\<close> and
  \<^verbatim>\<open>filepath.Rel\<close>. They belong to Go's standard library, not to the repository; they are
  written here element by element, following their documented rules for the separator
  \<^verbatim>\<open>/\<close>.
\<close>

text \<open>\<^verbatim>\<open>strings.Split(s, "/")\<close>: the pieces between separators, empty pieces included.\<close>

fun split_sep :: "string \<Rightarrow> string list" where
  "split_sep [] = [[]]"
| "split_sep (c # cs) =
     (if c = CHR ''/'' then [] # split_sep cs
      else (case split_sep cs of [] \<Rightarrow> [[c]] | x # xs \<Rightarrow> (c # x) # xs))"

text \<open>\<^verbatim>\<open>strings.Join(elems, "/")\<close>.\<close>

fun join_sep :: "string list \<Rightarrow> string" where
  "join_sep [] = []"
| "join_sep [x] = x"
| "join_sep (x # y # ys) = x @ CHR ''/'' # join_sep (y # ys)"

text \<open>
  One element of the path meets the elements kept so far. An empty element (a doubled
  separator) and \<^verbatim>\<open>.\<close> are dropped; \<^verbatim>\<open>..\<close> removes the element before it, unless there
  is none or it is itself \<^verbatim>\<open>..\<close>: then it is dropped in a rooted path and kept otherwise.
\<close>

definition clean_step :: "bool \<Rightarrow> string list \<Rightarrow> string \<Rightarrow> string list" where
  "clean_step rooted out c =
     (if c = [] \<or> c = ''.'' then out
      else if c = ''..'' then
        (if out \<noteq> [] \<and> last out \<noteq> ''..'' then butlast out
         else if rooted then out
         else out @ [''..''])
      else out @ [c])"

definition filepath_Clean :: "string \<Rightarrow> string" where
  "filepath_Clean path =
     (if path = [] then ''.''
      else
        let rooted = (hd path = CHR ''/'');
            out = foldl (clean_step rooted) [] (split_sep path);
            s = (if rooted then ''/'' else []) @ join_sep out
        in if s = [] then ''.'' else s)"

text \<open>
  \<^verbatim>\<open>filepath.Join(elem...)\<close>: the elements from the first non-empty one on are joined with
  separators and cleaned; with no non-empty element the result is the empty string.
\<close>

fun filepath_Join :: "string list \<Rightarrow> string" where
  "filepath_Join [] = []"
| "filepath_Join (e # es) =
     (if e \<noteq> [] then filepath_Clean (join_sep (e # es)) else filepath_Join es)"

text \<open>\<^verbatim>\<open>filepath.HasPrefix(p, prefix)\<close> is \<^verbatim>\<open>strings.HasPrefix\<close>: a comparison of bytes.\<close>

definition filepath_HasPrefix :: "string \<Rightarrow> string \<Rightarrow> bool" where
  "filepath_HasPrefix p pre = (take (length pre) p = pre)"

definition filepath_IsAbs :: "string \<Rightarrow> bool" where
  "filepath_IsAbs path = filepath_HasPrefix path ''/''"

text \<open>
  \<^verbatim>\<open>filepath.Abs(path)\<close>: an absolute path is cleaned; a relative one is joined to the
  working directory, and the call fails when \<^verbatim>\<open>os.Getwd\<close> does. The outcome of
  \<^verbatim>\<open>os.Getwd\<close> is the first argument.
\<close>

definition filepath_Abs :: "error + string \<Rightarrow> string \<Rightarrow> error + string" where
  "filepath_Abs getwd path =
     (if filepath_IsAbs path then Inr (filepath_Clean path)
      else (case getwd of
              Inl err \<Rightarrow> Inl err
            | Inr wd \<Rightarrow> Inr (filepath_Join [wd, path])))"

text \<open>
  The elements that the loop of \<^verbatim>\<open>filepath.Rel\<close> walks over: the pieces of a cleaned path,
  where the path \<^verbatim>\<open>/\<close> has the single empty element before its separator and the empty
  path has none.
\<close>

definition rel_elems :: "string \<Rightarrow> string list" where
  "rel_elems s = (if s = [] then [] else if s = ''/'' then [[]] else split_sep s)"

text \<open>The loop of \<^verbatim>\<open>filepath.Rel\<close>: it stops at the first pair of elements that differ.\<close>

fun rel_strip :: "string list \<Rightarrow> string list \<Rightarrow> string list \<times> string list" where
  "rel_strip (b # bs) (t # ts) = (if b = t then rel_strip bs ts else (b # bs, t # ts))"
| "rel_strip bs ts = (bs, ts)"

text \<open>
  \<^verbatim>\<open>filepath.Rel(basepath, targpath)\<close>. Both paths are cleaned. Equal paths give \<^verbatim>\<open>.\<close>;
  a rooted path and an unrooted one cannot be related, nor can a target be reached from a
  base whose first differing element is \<^verbatim>\<open>..\<close>. Otherwise the result climbs out of the
  remaining base elements and descends into the remaining target elements.
\<close>

definition filepath_Rel :: "string \<Rightarrow> string \<Rightarrow> error + string" where
  "filepath_Rel basepath targpath =
     (let base0 = filepath_Clean basepath;
          targ = filepath_Clean targpath
      in if targ = base0 then Inr ''.''
         else
           let base = (if base0 = ''.'' then [] else base0);
               cant = Error (''Rel: can't make '' @ targpath @ '' relative to '' @ basepath)
           in if filepath_IsAbs base \<noteq> filepath_IsAbs targ then Inl cant
              else (case rel_strip (rel_elems base) (rel_elems targ) of
                      (brest, trest) \<Rightarrow>
                        if brest \<noteq> [] \<and> trest \<noteq> [] \<and> hd brest = ''..'' then Inl cant
                        else if brest \<noteq> [] then
                          Inr (join_sep (replicate (length brest) ''..'')
                               @ (if trest \<noteq> [] then CHR ''/'' # join_sep trest else []))
                        else Inr (join_sep trest)))"

subsection \<open>The file system and the type sniffer, as the handlers see them\<close>

text \<open>
  \<^verbatim>\<open>os.FileInfo\<close>, as far as the listing reads it: \<^verbatim>\<open>Name()\<close> and \<^verbatim>\<open>IsDir()\<close>.
\<close>

record FileInfo =
  fi_Name :: string
  fi_IsDir :: bool

text \<open>
  What a path names, given by the outcome of each call the handlers make on the opened
  file: \<^verbatim>\<open>Stat\<close> (whether it is a directory), \<^verbatim>\<open>Readdir(-1)\<close> (the children, in the
  order the file system returns them), and reading: the bytes that can be read, followed
  by end of file or by a read error. The file system does not change during a request.
\<close>

record file_node =
  n_Stat :: "error + bool"
  n_Readdir :: "error + FileInfo list"
  n_data :: string
  n_rderr :: "error option"

text \<open>\<^verbatim>\<open>*os.File\<close>: \<^verbatim>\<open>Name()\<close> is the path that was given to \<^verbatim>\<open>os.Open\<close>.\<close>

record os_File =
  f_Name :: string
  f_node :: file_node

text \<open>
  Modelled from the spec: the result type of the imported package \<^verbatim>\<open>filetype\<close>, which is
  not among the sources (the handlers read its fields \<^verbatim>\<open>Extension\<close>, \<^verbatim>\<open>MIME.Type\<close> and
  \<^verbatim>\<open>MIME.Value\<close>). Section 3 (ContentKind): a MIME type/subtype pair plus a short extension
  label, or \<^verbatim>\<open>unknown\<close>, with an empty MIME type, when no signature matches.
\<close>

record MIME_t =
  MIME_Type :: string
  MIME_Subtype :: string
  MIME_Value :: string

record Type_t =
  MIME :: MIME_t
  Extension :: string

definition Unknown :: Type_t where
  "Unknown = \<lparr>MIME = \<lparr>MIME_Type = [], MIME_Subtype = [], MIME_Value = []\<rparr>,
              Extension = ''unknown''\<rparr>"

text \<open>
  The environment of a request: the outcome of \<^verbatim>\<open>os.Getwd\<close>, what each path names
  (or the error \<^verbatim>\<open>os.Open\<close> returns for it), and the two constants of the sniffing
  library: how many leading bytes it reads and its table of signatures, each a test on
  those bytes with the type it stands for.
\<close>

record env =
  Getwd :: "error + string"
  lookup :: "string \<Rightarrow> error + file_node"
  sniff_len :: nat
  Matchers :: "((string \<Rightarrow> bool) \<times> Type_t) list"

definition os_Open :: "env \<Rightarrow> string \<Rightarrow> error + os_File" where
  "os_Open e name =
     (case lookup e name of
        Inl err \<Rightarrow> Inl err
      | Inr n \<Rightarrow> Inr \<lparr>f_Name = name, f_node = n\<rparr>)"

text \<open>
  Modelled from the spec: the read of the classifier, which is not among the sources.
  Section 4.2: it reads a small fixed-size prefix of bytes, here the first \<^verbatim>\<open>n\<close> bytes of
  the file; an empty file is not an error, a file that cannot be read is.
\<close>

definition first_Read :: "nat \<Rightarrow> os_File \<Rightarrow> error + string" where
  "first_Read n f =
     (if n_data (f_node f) = [] then
        (case n_rderr (f_node f) of Some err \<Rightarrow> Inl err | None \<Rightarrow> Inr [])
      else Inr (take n (n_data (f_node f))))"

text \<open>
  Modelled from the spec: the match of the classifier, which is not among the sources.
  Section 4.2: the bytes are matched against a table of known binary signatures; the first
  signature that matches decides, and none gives the unknown kind rather than a failure.
\<close>

definition Match :: "((string \<Rightarrow> bool) \<times> Type_t) list \<Rightarrow> string \<Rightarrow> Type_t" where
  "Match table buf =
     (case find (\<lambda>m. fst m buf) table of
        Some m \<Rightarrow> snd m
      | None \<Rightarrow> Unknown)"

text \<open>
  Modelled from the spec: \<^verbatim>\<open>filetype.MatchFile\<close> of the imported package
  \<^verbatim>\<open>gopkg.in/h2non/filetype.v1\<close>, which is not among the sources. Section 4.2 (Content
  Classifier): it opens the file, reads a small fixed-size prefix of bytes and matches it
  against a table of known binary signatures; it does not look at the file's name; when no
  signature matches it returns the unknown kind rather than failing; only I/O errors (the
  file cannot be opened or read) are returned as errors.
\<close>

definition MatchFile :: "env \<Rightarrow> string \<Rightarrow> error + Type_t" where
  "MatchFile e path =
     (case os_Open e path of
        Inl err \<Rightarrow> Inl err
      | Inr f \<Rightarrow>
          (case first_Read (sniff_len e) f of
             Inl err \<Rightarrow> Inl err
           | Inr buf \<Rightarrow> Inr (Match (Matchers e) buf)))"

text \<open>
  \<^verbatim>\<open>fmt.Sprintf("%+v", fileType)\<close>: the struct with its field names, in the order
  the package declares them, \<^verbatim>\<open>MIME\<close> before \<^verbatim>\<open>Extension\<close>.
\<close>

definition Sprintf_Type :: "Type_t \<Rightarrow> string" where
  "Sprintf_Type t =
     ''{MIME:{Type:'' @ MIME_Type (MIME t) @ '' Subtype:'' @ MIME_Subtype (MIME t)
     @ '' Value:'' @ MIME_Value (MIME t) @ ''} Extension:'' @ Extension t @ ''}''"

subsection \<open>The response writer (package net/http)\<close>

text \<open>
  \<^verbatim>\<open>http.ResponseWriter\<close>, as the client sees the response: the status line once it is
  decided, the header fields sent with it, and the body bytes. The connection either
  accepts every write (\<open>sink = None\<close>) or accepts a number of further bytes and then
  fails every write with an error.
\<close>

record response =
  status :: "nat option"
  headers :: "(string \<times> string) list"
  body :: string
  sink :: "(nat \<times> error) option"

definition new_response :: "(nat \<times> error) option \<Rightarrow> response" where
  "new_response s = \<lparr>status = None, headers = [], body = [], sink = s\<rparr>"

text \<open>
  Changes to the header map after the status line has been written are not sent, so they
  leave the response as it is.
\<close>

definition Header_Add :: "response \<Rightarrow> string \<Rightarrow> string \<Rightarrow> response" where
  "Header_Add w k v =
     (if status w = None then w\<lparr>headers := headers w @ [(k, v)]\<rparr> else w)"

definition Header_Del :: "response \<Rightarrow> string \<Rightarrow> response" where
  "Header_Del w k =
     (if status w = None then w\<lparr>headers := filter (\<lambda>h. fst h \<noteq> k) (headers w)\<rparr> else w)"

definition Header_Set :: "response \<Rightarrow> string \<Rightarrow> string \<Rightarrow> response" where
  "Header_Set w k v = Header_Add (Header_Del w k) k v"

text \<open>The values of a header field, in the order they were added.\<close>

definition Header_Values :: "response \<Rightarrow> string \<Rightarrow> string list" where
  "Header_Values w k = map snd (filter (\<lambda>h. fst h = k) (headers w))"

text \<open>\<^verbatim>\<open>WriteHeader(code)\<close>: only the first call decides the status.\<close>

definition WriteHeader :: "response \<Rightarrow> nat \<Rightarrow> response" where
  "WriteHeader w code = (if status w = None then w\<lparr>status := Some code\<rparr> else w)"

text \<open>
  \<^verbatim>\<open>Write(bytes)\<close>: a first write without a status sends status 200; the bytes the
  connection still accepts are appended, and the write fails when it does not accept all.
\<close>

definition Write :: "response \<Rightarrow> string \<Rightarrow> response \<times> error option" where
  "Write w0 bs =
     (let w = WriteHeader w0 200
      in case sink w of
           None \<Rightarrow> (w\<lparr>body := body w @ bs\<rparr>, None)
         | Some (k, err) \<Rightarrow>
             if length bs \<le> k
             then (w\<lparr>body := body w @ bs, sink := Some (k - length bs, err)\<rparr>, None)
             else (w\<lparr>body := body w @ take k bs, sink := Some (0, err)\<rparr>, Some err))"

text \<open>
  \<^verbatim>\<open>http.Error(w, error, code)\<close>: a plain-text reply; its own write error is dropped.
\<close>

definition http_Error :: "response \<Rightarrow> string \<Rightarrow> nat \<Rightarrow> response" where
  "http_Error w0 err code =
     (let w1 = Header_Del w0 ''Content-Length'';
          w2 = Header_Set w1 ''Content-Type'' ''text/plain; charset=utf-8'';
          w3 = Header_Set w2 ''X-Content-Type-Options'' ''nosniff'';
          w4 = WriteHeader w3 code
      in fst (Write w4 (err @ ''\<newline>'')))"

text \<open>
  The status the client receives: a handler that returns without having written anything
  gets status 200 from the server.
\<close>

definition status_code :: "response \<Rightarrow> nat" where
  "status_code w = (case status w of None \<Rightarrow> 200 | Some c \<Rightarrow> c)"

text \<open>
  \<^verbatim>\<open>io.Copy(w, f)\<close>: the readable bytes of the file go to the writer in order; the copy
  fails with the write error if the connection refuses bytes, and otherwise with the read
  error that ends the file's data, if there is one.
\<close>

definition io_Copy :: "response \<Rightarrow> os_File \<Rightarrow> response \<times> error option" where
  "io_Copy w f =
     (if n_data (f_node f) = [] then (w, n_rderr (f_node f))
      else (case Write w (n_data (f_node f)) of
              (w', Some err) \<Rightarrow> (w', Some err)
            | (w', None) \<Rightarrow> (w', n_rderr (f_node f))))"

subsection \<open>The templates (package text/template: values are inserted as they are)\<close>

definition downloadPrefix :: string where
  "downloadPrefix = ''/_download''"

record dirEntry =
  BuildLink :: bool
  Name :: string
  Type :: string

text \<open>A template text of several lines, each ended by a newline.\<close>

definition text_lines :: "string list \<Rightarrow> string" where
  "text_lines ls = concat (map (\<lambda>l. l @ ''\<newline>'') ls)"

text \<open>
  \<^verbatim>\<open>dirTemplate\<close>, in three parts: the text up to the \<^verbatim>\<open>range\<close> action (the assignment
  of \<^verbatim>\<open>$parent\<close> prints nothing), one pass of the \<^verbatim>\<open>range\<close> body for an entry, and the
  text after the loop.
\<close>

definition dirTemplate_head :: "string \<Rightarrow> string" where
  \<open>dirTemplate_head title =
     text_lines [''<html>'', ''<head>'', ''<title>'' @ title @ ''</title>'', ''<style>'',
                 ''body {'', ''  font-size: xx-large;'', ''}'', ''</style>'', ''</head>'',
                 ''<body>'', ''<ul>'', []]\<close>

definition dirTemplate_entry :: "string \<Rightarrow> dirEntry \<Rightarrow> string" where
  \<open>dirTemplate_entry parent e =
     ''\<newline>''
     @ (if BuildLink e then
          text_lines [[],
            ''<li><a href="'' @ filepath_Join [parent, Name e] @ ''">''
              @ filepath_Join [parent, Name e] @ ''</a></li>'']
        else
          text_lines [[], ''<li>'' @ filepath_Join [parent, Name e] @ ''</li>''])
     @ ''\<newline>''\<close>

definition dirTemplate_tail :: string where
  \<open>dirTemplate_tail = text_lines [[], ''</ul>'', ''</body>'', ''</html>'']\<close>

definition dirTemplate :: "string \<Rightarrow> dirEntry list \<Rightarrow> string \<Rightarrow> string" where
  "dirTemplate title files parent =
     dirTemplate_head title @ concat (map (dirTemplate_entry parent) files) @ dirTemplate_tail"

text \<open>\<^verbatim>\<open>fileTemplate\<close>: the text before the \<^verbatim>\<open>source\<close> element, the element, the rest.\<close>

definition fileTemplate_head :: string where
  \<open>fileTemplate_head =
     text_lines [''<head>'',
       ''  <link href="http://vjs.zencdn.net/6.4.0/video-js.css" rel="stylesheet">'',
       [],
       ''  <!-- If you'' @ [CHR 0x27] @ ''d like to support IE8 -->'',
       ''  <script src="http://vjs.zencdn.net/ie8/1.1.2/videojs-ie8.min.js"></script>'',
       ''</head>'',
       [],
       ''<body>'',
       ''  <video id="my-video" class="video-js" controls preload="auto" width="640" height="264"'',
       ''  data-setup="{}">'']\<close>

definition fileTemplate_source :: "string \<Rightarrow> string \<Rightarrow> string" where
  \<open>fileTemplate_source src type =
     ''    <source src="'' @ src @ ''" type='' @ [CHR 0x27] @ type @ [CHR 0x27] @ ''>''\<close>

definition fileTemplate_tail :: string where
  \<open>fileTemplate_tail =
     text_lines [[],
       ''    <p class="vjs-no-js">'',
       ''      To view this video please enable JavaScript, and consider upgrading to a web browser that'',
       ''      <a href="http://videojs.com/html5-video-support/" target="_blank">supports HTML5 video</a>'',
       ''    </p>'',
       ''  </video>'',
       [],
       ''  <script src="http://vjs.zencdn.net/6.4.0/video.js"></script>'',
       ''</body>'']\<close>

definition fileTemplate :: "string \<Rightarrow> string \<Rightarrow> string \<Rightarrow> string" where
  "fileTemplate prefix name type =
     fileTemplate_head
     @ fileTemplate_source (filepath_Join [prefix, name]) type
     @ fileTemplate_tail"

text \<open>
  \<^verbatim>\<open>Execute(w, data)\<close>: the output goes to the writer piece by piece and stops at the first
  write error, so the writer receives the accepted prefix of the whole output. The data the
  handlers pass has every key and field the templates use, so no other error arises.
\<close>

definition Execute :: "response \<Rightarrow> string \<Rightarrow> response \<times> error option" where
  "Execute w out = Write w out"

subsection \<open>The handlers\<close>

text \<open>
  The loop of \<^verbatim>\<open>handleDir\<close> over the children: a directory gets a link and the label
  \<^verbatim>\<open>directory\<close>; any other child is sniffed, gets a link when its MIME type is
  \<^verbatim>\<open>video\<close>, and the extension as label. The first sniffing error ends the loop.
\<close>

fun dirEntries :: "env \<Rightarrow> string \<Rightarrow> FileInfo list \<Rightarrow> dirEntry list \<Rightarrow> error + dirEntry list" where
  "dirEntries e dname [] entries = Inr entries"
| "dirEntries e dname (info # infos) entries =
     (if fi_IsDir info then
        dirEntries e dname infos
          (entries @ [\<lparr>BuildLink = True, Name = fi_Name info, Type = ''directory''\<rparr>])
      else
        (case MatchFile e (filepath_Join [dname, fi_Name info]) of
           Inl err \<Rightarrow> Inl err
         | Inr fileType \<Rightarrow>
             dirEntries e dname infos
               (entries @ [\<lparr>BuildLink = (MIME_Type (MIME fileType) = ''video''),
                            Name = fi_Name info,
                            Type = Extension fileType\<rparr>])))"

definition handleDir :: "env \<Rightarrow> response \<Rightarrow> string \<Rightarrow> os_File \<Rightarrow> response" where
  "handleDir e w0 urlPath dir =
     (let w = Header_Add w0 ''X-Mediaweb-Handler'' ''dir''
      in case n_Readdir (f_node dir) of
           Inl err \<Rightarrow> http_Error w (message err) 500
         | Inr infos \<Rightarrow>
             (case dirEntries e (f_Name dir) infos [] of
                Inl err \<Rightarrow> http_Error w (message err) 500
              | Inr entries \<Rightarrow>
                  (case Execute w (dirTemplate (f_Name dir) entries
                                     (filepath_Join [''/'', urlPath])) of
                     (w', Some err) \<Rightarrow> http_Error w' (message err) 500
                   | (w', None) \<Rightarrow> w')))"

definition handleFile :: "env \<Rightarrow> response \<Rightarrow> string \<Rightarrow> os_File \<Rightarrow> response" where
  "handleFile e w0 urlPath f =
     (let w = Header_Add w0 ''X-Mediaweb-Handler'' ''file''
      in case MatchFile e (f_Name f) of
           Inl err \<Rightarrow> http_Error w (message err) 500
         | Inr fileType \<Rightarrow>
             (let w1 = Header_Add w ''X-Mediaweb-Type'' (Sprintf_Type fileType)
              in case Execute w1 (fileTemplate downloadPrefix
                                    (filepath_Join [''/'', urlPath])
                                    (MIME_Value (MIME fileType))) of
                   (w', Some err) \<Rightarrow> http_Error w' (message err) 500
                 | (w', None) \<Rightarrow> w'))"

definition handleDownload :: "env \<Rightarrow> response \<Rightarrow> string \<Rightarrow> string \<Rightarrow> response" where
  "handleDownload e w0 urlPath dir =
     (let w = Header_Add w0 ''X-Mediaweb-Handler'' ''download''
      in case filepath_Rel downloadPrefix urlPath of
           Inl err \<Rightarrow> http_Error w (message err) 400
         | Inr rel \<Rightarrow>
             (case filepath_Abs (Getwd e) (filepath_Join [dir, rel]) of
                Inl err \<Rightarrow> http_Error w (message err) 400
              | Inr realPath \<Rightarrow>
                  if \<not> filepath_HasPrefix realPath dir
                  then http_Error w ''outside allowed path'' 400
                  else
                    (case MatchFile e realPath of
                       Inl err \<Rightarrow> http_Error w (message err) 500
                     | Inr fileType \<Rightarrow>
                         (let w1 = Header_Add w ''Content-Type'' (MIME_Value (MIME fileType))
                          in case os_Open e realPath of
                               Inl err \<Rightarrow> http_Error w1 (message err) 500
                             | Inr f \<Rightarrow>
                                 (case io_Copy w1 f of
                                    (w', Some err) \<Rightarrow> http_Error w' (message err) 500
                                  | (w', None) \<Rightarrow> w')))))"

definition handlerFunc :: "string \<Rightarrow> env \<Rightarrow> response \<Rightarrow> string \<Rightarrow> response" where
  "handlerFunc dir e w urlPath =
     (if filepath_HasPrefix urlPath ''/_download'' then handleDownload e w urlPath dir
      else
        (case filepath_Abs (Getwd e) (filepath_Join [dir, urlPath]) of
           Inl err \<Rightarrow> http_Error w (message err) 400
         | Inr realPath \<Rightarrow>
             if \<not> filepath_HasPrefix realPath dir
             then http_Error w ''outside allowed path'' 400
             else
               (case os_Open e realPath of
                  Inl err \<Rightarrow> http_Error w (message err) 400
                | Inr f \<Rightarrow>
                    (case n_Stat (f_node f) of
                       Inl err \<Rightarrow> http_Error w (message err) 500
                     | Inr isDir \<Rightarrow>
                         if isDir then handleDir e w urlPath f
                         else handleFile e w urlPath f))))"

subsection \<open>A served tree to run the handlers on\<close>

text \<open>
  The scenario of the specification: the root \<^verbatim>\<open>/srv/media\<close> holds the directory
  \<^verbatim>\<open>movies\<close>, the text file \<^verbatim>\<open>notes.txt\<close> and the MP4 file \<^verbatim>\<open>clip.mp4\<close>; beside the
  root lies the directory \<^verbatim>\<open>/srv/media2\<close> with the file \<^verbatim>\<open>x\<close>. The signature table has
  the one entry this scenario needs.
\<close>

definition mp4 :: Type_t where
  "mp4 = \<lparr>MIME = \<lparr>MIME_Type = ''video'', MIME_Subtype = ''mp4'', MIME_Value = ''video/mp4''\<rparr>,
          Extension = ''mp4''\<rparr>"

definition regular_file :: "string \<Rightarrow> file_node" where
  "regular_file bytes =
     \<lparr>n_Stat = Inr False, n_Readdir = Inl (Error ''not a directory''),
      n_data = bytes, n_rderr = None\<rparr>"

definition directory :: "FileInfo list \<Rightarrow> file_node" where
  "directory infos =
     \<lparr>n_Stat = Inr True, n_Readdir = Inr infos,
      n_data = [], n_rderr = Some (Error ''is a directory'')\<rparr>"

definition scenario_lookup :: "string \<Rightarrow> error + file_node" where
  "scenario_lookup p =
     (if p = ''/srv/media'' then
        Inr (directory [\<lparr>fi_Name = ''movies'', fi_IsDir = True\<rparr>,
                        \<lparr>fi_Name = ''notes.txt'', fi_IsDir = False\<rparr>,
                        \<lparr>fi_Name = ''clip.mp4'', fi_IsDir = False\<rparr>])
      else if p = ''/srv/media/movies'' then Inr (directory [])
      else if p = ''/srv/media/notes.txt'' then Inr (regular_file ''hello'')
      else if p = ''/srv/media/clip.mp4'' then Inr (regular_file ''....ftypmp42'')
      else if p = ''/srv/media2'' then Inr (directory [\<lparr>fi_Name = ''x'', fi_IsDir = False\<rparr>])
      else if p = ''/srv/media2/x'' then Inr (regular_file ''secret'')
      else Inl (Error ''no such file or directory''))"

definition scenario :: env where
  "scenario =
     \<lparr>Getwd = Inr ''/'', lookup = scenario_lookup, sniff_len = 8192,
      Matchers = [(\<lambda>buf. take 4 (drop 4 buf) = ''ftyp'', mp4)]\<rparr>"

text \<open>
  An element that \<^verbatim>\<open>Clean\<close> keeps as it is: not empty, not \<^verbatim>\<open>.\<close>, not \<^verbatim>\<open>..\<close>, and
  free of separators. (Used to state facts about cleaned paths.)
\<close>

definition plain_elem :: "string \<Rightarrow> bool" where
  "plain_elem c = (c \<noteq> [] \<and> c \<noteq> ''.'' \<and> c \<noteq> ''..'' \<and> CHR ''/'' \<notin> set c)"

section \<open>Properties\<close>

subsection \<open>The response writer\<close>

lemma status_WriteHeader [simp]:
  "status (WriteHeader w code) = (if status w = None then Some code else status w)"
  by (simp add: WriteHeader_def)

lemma status_Write [simp]:
  "status (fst (Write w bs)) = (if status w = None then Some 200 else status w)"
  by (simp add: Write_def Let_def split: option.split prod.split)

lemma status_Header_Add [simp]: "status (Header_Add w k v) = status w"
  by (simp add: Header_Add_def)

lemma status_Header_Del [simp]: "status (Header_Del w k) = status w"
  by (simp add: Header_Del_def)

lemma status_Header_Set [simp]: "status (Header_Set w k v) = status w"
  by (simp add: Header_Set_def)

lemma status_http_Error [simp]:
  "status (http_Error w err code) = (if status w = None then Some code else status w)"
  by (simp add: http_Error_def Let_def)

lemma status_new_response [simp]: "status (new_response s) = None"
  by (simp add: new_response_def)

lemma Header_Values_Header_Add [simp]:
  "Header_Values (Header_Add w k v) k' =
     (if status w = None \<and> k = k' then Header_Values w k' @ [v] else Header_Values w k')"
  by (simp add: Header_Values_def Header_Add_def)

lemma Header_Values_Header_Del [simp]:
  "Header_Values (Header_Del w k) k' =
     (if status w = None \<and> k = k' then [] else Header_Values w k')"
proof -
  have "filter (\<lambda>h. fst h = k') (filter (\<lambda>h. fst h \<noteq> k) hs)
          = (if k = k' then [] else filter (\<lambda>h. fst h = k') hs)" for hs :: "(string \<times> string) list"
    by (induction hs) auto
  then show ?thesis
    by (simp add: Header_Values_def Header_Del_def)
qed

lemma Header_Values_Header_Set [simp]:
  "Header_Values (Header_Set w k v) k' =
     (if status w = None \<and> k = k' then [v] else Header_Values w k')"
  by (simp add: Header_Set_def)

lemma Header_Values_WriteHeader [simp]:
  "Header_Values (WriteHeader w code) k = Header_Values w k"
  by (simp add: Header_Values_def WriteHeader_def)

lemma Header_Values_Write [simp]:
  "Header_Values (fst (Write w bs)) k = Header_Values w k"
  by (simp add: Header_Values_def Write_def WriteHeader_def Let_def split: option.split prod.split)

lemma Header_Values_http_Error:
  "k \<noteq> ''Content-Length'' \<Longrightarrow> k \<noteq> ''Content-Type'' \<Longrightarrow> k \<noteq> ''X-Content-Type-Options'' \<Longrightarrow>
   Header_Values (http_Error w err code) k = Header_Values w k"
  by (simp add: http_Error_def Let_def)

lemma Header_Values_new_response [simp]: "Header_Values (new_response s) k = []"
  by (simp add: Header_Values_def new_response_def)

lemma Write_unlimited:
  "sink w = None \<Longrightarrow>
   Write w bs = (w\<lparr>status := (if status w = None then Some 200 else status w),
                    body := body w @ bs\<rparr>, None)"
  by (simp add: Write_def WriteHeader_def Let_def)

lemma sink_Header_Add [simp]: "sink (Header_Add w k v) = sink w"
  by (simp add: Header_Add_def)

lemma body_Header_Add [simp]: "body (Header_Add w k v) = body w"
  by (simp add: Header_Add_def)

lemma sink_Header_Set [simp]: "sink (Header_Set w k v) = sink w"
  by (simp add: Header_Set_def Header_Add_def Header_Del_def)

lemma body_Header_Set [simp]: "body (Header_Set w k v) = body w"
  by (simp add: Header_Set_def Header_Add_def Header_Del_def)

lemma sink_Header_Del [simp]: "sink (Header_Del w k) = sink w"
  by (simp add: Header_Del_def)

lemma body_Header_Del [simp]: "body (Header_Del w k) = body w"
  by (simp add: Header_Del_def)

lemma body_http_Error_unlimited:
  "sink w = None \<Longrightarrow> body (http_Error w err code) = body w @ err @ ''\<newline>''"
  by (simp add: http_Error_def Let_def Write_unlimited WriteHeader_def)

lemma status_code_simps [simp]:
  "status w = Some c \<Longrightarrow> status_code w = c"
  "status w = None \<Longrightarrow> status_code w = 200"
  by (simp_all add: status_code_def)

subsection \<open>Facts about the scenario\<close>

declare filepath_Join.simps [simp del]

lemma scenario_Getwd: "Getwd scenario = Inr ''/''"
  by (simp add: scenario_def)

lemma scenario_sniffer:
  "sniff_len scenario = 8192"
  "Matchers scenario = [(\<lambda>buf. take 4 (drop 4 buf) = ''ftyp'', mp4)]"
  by (simp_all add: scenario_def)

lemma scenario_Open_root:
  "os_Open scenario ''/srv/media'' =
     Inr \<lparr>f_Name = ''/srv/media'',
          f_node = directory [\<lparr>fi_Name = ''movies'', fi_IsDir = True\<rparr>,
                              \<lparr>fi_Name = ''notes.txt'', fi_IsDir = False\<rparr>,
                              \<lparr>fi_Name = ''clip.mp4'', fi_IsDir = False\<rparr>]\<rparr>"
  by (simp add: os_Open_def scenario_def scenario_lookup_def)

lemma scenario_Open_clip:
  "os_Open scenario ''/srv/media/clip.mp4'' =
     Inr \<lparr>f_Name = ''/srv/media/clip.mp4'', f_node = regular_file ''....ftypmp42''\<rparr>"
  by (simp add: os_Open_def scenario_def scenario_lookup_def)

lemma scenario_Open_notes:
  "os_Open scenario ''/srv/media/notes.txt'' =
     Inr \<lparr>f_Name = ''/srv/media/notes.txt'', f_node = regular_file ''hello''\<rparr>"
  by (simp add: os_Open_def scenario_def scenario_lookup_def)

lemma scenario_Open_x:
  "os_Open scenario ''/srv/media2/x'' =
     Inr \<lparr>f_Name = ''/srv/media2/x'', f_node = regular_file ''secret''\<rparr>"
  by (simp add: os_Open_def scenario_def scenario_lookup_def)

lemma scenario_Match_clip: "MatchFile scenario ''/srv/media/clip.mp4'' = Inr mp4"
  by (simp add: MatchFile_def scenario_Open_clip first_Read_def regular_file_def Match_def
                scenario_sniffer)

lemma scenario_Match_notes: "MatchFile scenario ''/srv/media/notes.txt'' = Inr Unknown"
  by (simp add: MatchFile_def scenario_Open_notes first_Read_def regular_file_def Match_def
                scenario_sniffer)

lemma scenario_Match_x: "MatchFile scenario ''/srv/media2/x'' = Inr Unknown"
  by (simp add: MatchFile_def scenario_Open_x first_Read_def regular_file_def Match_def
                scenario_sniffer)

lemma download_clip:
  "filepath_Rel downloadPrefix p = Inr rel \<Longrightarrow>
   filepath_Abs (Getwd scenario) (filepath_Join [''/srv/media'', rel]) = Inr ''/srv/media/clip.mp4'' \<Longrightarrow>
   handleDownload scenario (new_response None) p ''/srv/media'' =
     \<lparr>status = Some 200,
      headers = [(''X-Mediaweb-Handler'', ''download''), (''Content-Type'', ''video/mp4'')],
      body = ''....ftypmp42'', sink = None\<rparr>"
  by (simp add: handleDownload_def Let_def filepath_HasPrefix_def scenario_Match_clip
                scenario_Open_clip io_Copy_def regular_file_def Write_def WriteHeader_def
                Header_Add_def new_response_def mp4_def)

subsection \<open>Cleaned paths\<close>

lemma split_sep_nonempty [simp]: "split_sep s \<noteq> []"
  by (induction s) (auto split: list.splits)

lemma split_sep_append: "split_sep (a @ CHR ''/'' # b) = split_sep a @ split_sep b"
  by (induction a) (auto split: list.splits)

lemma split_sep_no_sep: "c \<in> set (split_sep s) \<Longrightarrow> CHR ''/'' \<notin> set c"
  by (induction s arbitrary: c) (auto split: if_splits list.splits)

lemma split_sep_single: "CHR ''/'' \<notin> set x \<Longrightarrow> split_sep x = [x]"
  by (induction x) (auto split: list.splits)

lemma split_sep_join_sep:
  "xs \<noteq> [] \<Longrightarrow> \<forall>x \<in> set xs. CHR ''/'' \<notin> set x \<Longrightarrow> split_sep (join_sep xs) = xs"
proof (induction xs rule: join_sep.induct)
  case 1 then show ?case by simp
next
  case (2 x) then show ?case by (simp add: split_sep_single)
next
  case (3 x y ys)
  then show ?case by (simp add: split_sep_append split_sep_single)
qed

lemma clean_step_plain:
  "\<forall>c \<in> set out. plain_elem c \<Longrightarrow> CHR ''/'' \<notin> set c \<Longrightarrow>
   \<forall>c' \<in> set (clean_step True out c). plain_elem c'"
  by (auto simp: clean_step_def plain_elem_def dest: in_set_butlastD)

lemma foldl_clean_step_plain:
  "\<forall>c \<in> set out. plain_elem c \<Longrightarrow> \<forall>c \<in> set xs. CHR ''/'' \<notin> set c \<Longrightarrow>
   \<forall>c \<in> set (foldl (clean_step True) out xs). plain_elem c"
proof (induction xs arbitrary: out)
  case Nil then show ?case by simp
next
  case (Cons x xs)
  have "\<forall>c' \<in> set (clean_step True out x). plain_elem c'"
    using Cons.prems by (intro clean_step_plain) auto
  then show ?case using Cons by simp
qed

lemma foldl_clean_step_id:
  "\<forall>c \<in> set xs. plain_elem c \<Longrightarrow> foldl (clean_step r) out xs = out @ xs"
  by (induction xs arbitrary: out) (auto simp: clean_step_def plain_elem_def)

lemma Clean_rooted:
  "filepath_Clean (CHR ''/'' # s)
     = CHR ''/'' # join_sep (foldl (clean_step True) [] (split_sep s))"
  by (simp add: filepath_Clean_def Let_def clean_step_def)


lemma clean_step_empty [simp]: "clean_step r out [] = out"
  by (simp add: clean_step_def)

lemma Join_root_elems:
  "filepath_Join [''/'', p]
     = CHR ''/'' # join_sep (foldl (clean_step True) [] (split_sep p))"
  by (simp add: filepath_Join.simps Clean_rooted)

lemma plain_out: "\<forall>c \<in> set (foldl (clean_step True) [] (split_sep p)). plain_elem c"
  by (rule foldl_clean_step_plain) (auto dest: split_sep_no_sep)

lemma foldl_clean_step_rejoin:
  assumes "\<forall>c \<in> set out. plain_elem c"
  shows "foldl (clean_step True) acc (split_sep (join_sep out)) = acc @ out"
proof (cases "out = []")
  case True then show ?thesis by simp
next
  case False
  have "\<forall>x \<in> set out. CHR ''/'' \<notin> set x"
    using assms by (simp add: plain_elem_def)
  with False have "split_sep (join_sep out) = out"
    by (rule split_sep_join_sep)
  then show ?thesis using assms by (simp add: foldl_clean_step_id)
qed



lemma join_sep_plain_nonempty:
  "out \<noteq> [] \<Longrightarrow> \<forall>c \<in> set out. plain_elem c \<Longrightarrow> join_sep out \<noteq> []"
  by (induction out rule: join_sep.induct) (auto simp: plain_elem_def)

lemma Join_downloadPrefix_rooted:
  "filepath_Join [downloadPrefix, filepath_Join [''/'', p]]
     = downloadPrefix @ (if filepath_Join [''/'', p] = ''/'' then [] else filepath_Join [''/'', p])"
proof -
  define out where "out = foldl (clean_step True) [] (split_sep p)"
  have plain: "\<forall>c \<in> set out. plain_elem c"
    unfolding out_def by (rule plain_out)
  have A: "filepath_Join [''/'', p] = CHR ''/'' # join_sep out"
    by (simp add: Join_root_elems out_def)
  have "filepath_Join [downloadPrefix, CHR ''/'' # join_sep out]
          = filepath_Clean (CHR ''/'' # (''_download'' @ CHR ''/'' # CHR ''/'' # join_sep out))"
    by (simp add: filepath_Join.simps downloadPrefix_def)
  also have "\<dots> = CHR ''/'' # join_sep (foldl (clean_step True) []
                        (split_sep ''_download'' @ split_sep (CHR ''/'' # join_sep out)))"
    by (simp only: Clean_rooted split_sep_append)
  also have "split_sep ''_download'' = [''_download'']"
    by (simp add: split_sep_single)
  also have "foldl (clean_step True) [] ([''_download''] @ split_sep (CHR ''/'' # join_sep out))
               = foldl (clean_step True) [''_download''] (split_sep (join_sep out))"
    by (simp add: clean_step_def)
  also have "\<dots> = ''_download'' # out"
    using foldl_clean_step_rejoin [OF plain, of "[''_download'']"] by simp
  finally have B: "filepath_Join [downloadPrefix, CHR ''/'' # join_sep out]
                     = CHR ''/'' # join_sep (''_download'' # out)" .
  show ?thesis
  proof (cases "out = []")
    case True
    then show ?thesis unfolding A B by (simp add: downloadPrefix_def)
  next
    case False
    then have "join_sep out \<noteq> []"
      using plain by (rule join_sep_plain_nonempty)
    moreover from False obtain x xs where "out = x # xs" by (cases out) auto
    ultimately show ?thesis unfolding A B by (simp add: downloadPrefix_def)
  qed
qed

lemma Join_root_clean:
  assumes "filepath_IsAbs p" and "filepath_Clean p = p"
  shows "filepath_Join [''/'', p] = p"
proof -
  from assms(1) obtain p' where p: "p = CHR ''/'' # p'"
    by (cases p) (auto simp: filepath_IsAbs_def filepath_HasPrefix_def)
  have "filepath_Join [''/'', p] = filepath_Clean p"
    by (simp add: Join_root_elems p Clean_rooted)
  with assms(2) show ?thesis by simp
qed

lemma Join_double_separator:
  assumes "a \<noteq> []"
  shows "filepath_Join [a, CHR ''/'' # b] = filepath_Join [a, b]"
proof -
  have hd: "hd (a @ CHR ''/'' # CHR ''/'' # b) = hd (a @ CHR ''/'' # b)"
    using assms by simp
  have "split_sep (a @ CHR ''/'' # CHR ''/'' # b) = split_sep a @ [] # split_sep b"
    by (simp add: split_sep_append)
  then have "foldl (clean_step r) [] (split_sep (a @ CHR ''/'' # CHR ''/'' # b))
               = foldl (clean_step r) [] (split_sep (a @ CHR ''/'' # b))" for r
    by (simp add: split_sep_append)
  then have "filepath_Clean (a @ CHR ''/'' # CHR ''/'' # b) = filepath_Clean (a @ CHR ''/'' # b)"
    by (simp add: filepath_Clean_def hd)
  then show ?thesis
    using assms by (simp add: filepath_Join.simps)
qed

lemma Clean_downloadPrefix: "filepath_Clean downloadPrefix = ''/_download''"
  by code_simp

lemma Clean_under_downloadPrefix:
  assumes "cs \<noteq> []" and "\<forall>c \<in> set cs. plain_elem c"
  shows "filepath_Clean (downloadPrefix @ CHR ''/'' # join_sep cs)
           = CHR ''/'' # join_sep (''_download'' # cs)"
proof -
  have sep: "\<forall>x \<in> set cs. CHR ''/'' \<notin> set x"
    using assms(2) by (simp add: plain_elem_def)
  have "split_sep (''_download'' @ CHR ''/'' # join_sep cs) = ''_download'' # cs"
    using split_sep_join_sep [OF assms(1) sep]
    by (simp only: split_sep_append) (simp add: split_sep_single)
  moreover have "\<forall>c \<in> set (''_download'' # cs). plain_elem c"
    using assms(2) by (simp add: plain_elem_def)
  ultimately have "foldl (clean_step True) [] (split_sep (''_download'' @ CHR ''/'' # join_sep cs))
                     = ''_download'' # cs"
    by (simp only: foldl_clean_step_id) simp
  moreover have "downloadPrefix @ CHR ''/'' # join_sep cs
                   = CHR ''/'' # (''_download'' @ CHR ''/'' # join_sep cs)"
    by (simp add: downloadPrefix_def)
  ultimately show ?thesis
    by (simp only: Clean_rooted)
qed

text \<open>
  A request path that is the download prefix, a separator and a cleaned relative path
  without \<^verbatim>\<open>.\<close> or \<^verbatim>\<open>..\<close> elements: made relative to the prefix it is that relative path.
\<close>

lemma Rel_under_downloadPrefix:
  assumes "cs \<noteq> []" and "\<forall>c \<in> set cs. plain_elem c"
  shows "filepath_Rel downloadPrefix (downloadPrefix @ CHR ''/'' # join_sep cs)
           = Inr (join_sep cs)"
proof -
  obtain c cs' where cs: "cs = c # cs'" using assms(1) by (cases cs) auto
  let ?targ = "CHR ''/'' # join_sep (''_download'' # cs)"
  have targ: "?targ = ''/_download'' @ CHR ''/'' # join_sep cs"
    by (simp add: cs)
  have ne: "?targ \<noteq> ''/_download''"
    by (simp add: cs)
  have sep: "\<forall>x \<in> set (''_download'' # cs). CHR ''/'' \<notin> set x"
    using assms(2) by (simp add: plain_elem_def)
  have "split_sep (join_sep (''_download'' # cs)) = ''_download'' # cs"
    by (rule split_sep_join_sep [OF _ sep]) simp
  then have elems: "rel_elems ?targ = [] # ''_download'' # cs"
    by (simp add: rel_elems_def cs)
  have base: "rel_elems ''/_download'' = [[], ''_download'']"
    by code_simp
  have strip: "rel_strip [[], ''_download''] ([] # ''_download'' # cs) = ([], cs)"
    by (cases cs) simp_all
  have abs: "filepath_IsAbs ''/_download''" "filepath_IsAbs ?targ"
    by (simp_all add: filepath_IsAbs_def filepath_HasPrefix_def)
  have dot: "''/_download'' \<noteq> ''.''" by simp
  show ?thesis
    unfolding filepath_Rel_def Clean_downloadPrefix Clean_under_downloadPrefix [OF assms]
    using ne abs dot
    by (simp add: Let_def elems base strip del: join_sep.simps)
qed

subsection \<open>Confinement to the root\<close>

text \<open>
  C1, as the code has it. The router sends a path that starts with \<^verbatim>\<open>/_download\<close> to the
  download handler before any check, and the download handler joins the root with the
  path made relative to \<^verbatim>\<open>/_download\<close>, not with the request path itself. So: for a
  request path that does not start with the download prefix, if the absolute, cleaned join
  of root and path cannot be computed or does not have the root as a string prefix, the
  router answers 400; and for any request path given to the download handler, if the path
  cannot be made relative to the prefix, or the absolute, cleaned join of root and that
  relative path cannot be computed or does not have the root as a string prefix, the
  download handler answers 400.
\<close>

theorem outside_root_rejected:
  assumes "status w = None"
  shows "(\<not> filepath_HasPrefix p ''/_download'' \<longrightarrow>
            (\<forall>realPath. filepath_Abs (Getwd e) (filepath_Join [root, p]) = Inr realPath
                 \<longrightarrow> \<not> filepath_HasPrefix realPath root) \<longrightarrow>
            status (handlerFunc root e w p) = Some 400)
       \<and> ((\<forall>rel realPath. filepath_Rel downloadPrefix p = Inr rel \<longrightarrow>
               filepath_Abs (Getwd e) (filepath_Join [root, rel]) = Inr realPath \<longrightarrow>
               \<not> filepath_HasPrefix realPath root) \<longrightarrow>
            status (handleDownload e w p root) = Some 400)"
  using assms
  by (auto simp: handlerFunc_def handleDownload_def Let_def split: sum.splits)

text \<open>
  The specification's example, \<^verbatim>\<open>../../etc/passwd\<close> against the root \<^verbatim>\<open>/srv/media\<close>, and
  the same escape through the download prefix.
\<close>

theorem outside_root_rejected_witness:
  "status (handlerFunc ''/srv/media'' scenario (new_response None) ''../../etc/passwd'')
     = Some 400
   \<and> status (handleDownload scenario (new_response None) ''/_download/../../etc/passwd''
               ''/srv/media'')
     = Some 400"
proof -
  have r1: "filepath_Abs (Getwd scenario) (filepath_Join [''/srv/media'', ''../../etc/passwd''])
              = Inr ''/etc/passwd''"
    by code_simp
  have r2: "filepath_Rel downloadPrefix ''/_download/../../etc/passwd'' = Inr ''../etc/passwd''"
    by code_simp
  have r3: "filepath_Abs (Getwd scenario) (filepath_Join [''/srv/media'', ''../etc/passwd''])
              = Inr ''/srv/etc/passwd''"
    by code_simp
  have a: "\<not> filepath_HasPrefix ''../../etc/passwd'' ''/_download''"
    by (simp add: filepath_HasPrefix_def)
  have b: "\<not> filepath_HasPrefix ''/etc/passwd'' ''/srv/media''"
    by (simp add: filepath_HasPrefix_def)
  have c: "\<not> filepath_HasPrefix ''/srv/etc/passwd'' ''/srv/media''"
    by (simp add: filepath_HasPrefix_def)
  have h1: "\<forall>realPath. filepath_Abs (Getwd scenario)
                          (filepath_Join [''/srv/media'', ''../../etc/passwd'']) = Inr realPath
              \<longrightarrow> \<not> filepath_HasPrefix realPath ''/srv/media''"
    unfolding r1 using b by simp
  have h2: "\<forall>rel realPath. filepath_Rel downloadPrefix ''/_download/../../etc/passwd'' = Inr rel \<longrightarrow>
              filepath_Abs (Getwd scenario) (filepath_Join [''/srv/media'', rel]) = Inr realPath \<longrightarrow>
              \<not> filepath_HasPrefix realPath ''/srv/media''"
    unfolding r2 using c r3 by simp
  note main = outside_root_rejected [of "new_response None" "''../../etc/passwd''" scenario
                  "''/srv/media''", OF status_new_response]
  note down = outside_root_rejected [of "new_response None" "''/_download/../../etc/passwd''"
                  scenario "''/srv/media''", OF status_new_response]
  from main a h1
  have 1: "status (handlerFunc ''/srv/media'' scenario (new_response None) ''../../etc/passwd'')
             = Some 400"
    by blast
  from down h2
  have 2: "status (handleDownload scenario (new_response None) ''/_download/../../etc/passwd''
                     ''/srv/media'') = Some 400"
    by blast
  show ?thesis using 1 2 by simp
qed

text \<open>
  C1 as it is worded, with the request path itself joined to the root, fails: the request
  path \<^verbatim>\<open>/_download/../../../media/clip.mp4\<close> joined to \<^verbatim>\<open>/srv/media\<close> is
  \<^verbatim>\<open>/media/clip.mp4\<close>, which does not have the root as a prefix, and yet neither the
  router nor the download handler rejects it: made relative to the prefix it is
  \<^verbatim>\<open>../media/clip.mp4\<close>, which resolves to \<^verbatim>\<open>/srv/media/clip.mp4\<close>, and that file is sent.
\<close>

theorem outside_root_request_path_counterexample:
  "filepath_Abs (Getwd scenario)
       (filepath_Join [''/srv/media'', ''/_download/../../../media/clip.mp4''])
     = Inr ''/media/clip.mp4''
   \<and> \<not> filepath_HasPrefix ''/media/clip.mp4'' ''/srv/media''
   \<and> status (handlerFunc ''/srv/media'' scenario (new_response None)
                ''/_download/../../../media/clip.mp4'') = Some 200
   \<and> status (handleDownload scenario (new_response None)
                ''/_download/../../../media/clip.mp4'' ''/srv/media'') = Some 200
   \<and> body (handleDownload scenario (new_response None)
              ''/_download/../../../media/clip.mp4'' ''/srv/media'') = ''....ftypmp42''"
proof -
  have r1: "filepath_Abs (Getwd scenario)
              (filepath_Join [''/srv/media'', ''/_download/../../../media/clip.mp4''])
            = Inr ''/media/clip.mp4''"
    by code_simp
  have r2: "filepath_Rel downloadPrefix ''/_download/../../../media/clip.mp4''
            = Inr ''../media/clip.mp4''"
    by code_simp
  have r3: "filepath_Abs (Getwd scenario) (filepath_Join [''/srv/media'', ''../media/clip.mp4''])
            = Inr ''/srv/media/clip.mp4''"
    by code_simp
  have b: "\<not> filepath_HasPrefix ''/media/clip.mp4'' ''/srv/media''"
    by (simp add: filepath_HasPrefix_def)
  have d: "filepath_HasPrefix ''/_download/../../../media/clip.mp4'' ''/_download''"
    by (simp add: filepath_HasPrefix_def)
  note served = download_clip [OF r2 r3]
  have "handlerFunc ''/srv/media'' scenario (new_response None)
          ''/_download/../../../media/clip.mp4''
        = handleDownload scenario (new_response None)
            ''/_download/../../../media/clip.mp4'' ''/srv/media''"
    using d by (simp add: handlerFunc_def)
  with r1 b served show ?thesis by simp
qed

lemma filepath_HasPrefix_append [simp]: "filepath_HasPrefix (root @ suffix) root"
  by (simp add: filepath_HasPrefix_def)

lemma MatchFile_readable:
  assumes "lookup e path = Inr node" and "n_data node \<noteq> [] \<or> n_rderr node = None"
  shows "MatchFile e path = Inr (Match (Matchers e) (take (sniff_len e) (n_data node)))"
  using assms
  by (auto simp: MatchFile_def os_Open_def first_Read_def split: option.splits)

text \<open>
  The download handler on a path that passes its check and names a file that can be read
  to its end, with a connection that accepts every write.
\<close>

lemma handleDownload_serves:
  assumes "filepath_Rel downloadPrefix p = Inr rel"
      and "filepath_Abs (Getwd e) (filepath_Join [root, rel]) = Inr realPath"
      and "filepath_HasPrefix realPath root"
      and "lookup e realPath = Inr node"
      and "n_rderr node = None"
  shows "handleDownload e (new_response None) p root =
           \<lparr>status = (if n_data node = [] then None else Some 200),
            headers = [(''X-Mediaweb-Handler'', ''download''),
                       (''Content-Type'',
                        MIME_Value (MIME (Match (Matchers e)
                                            (take (sniff_len e) (n_data node)))))],
            body = n_data node,
            sink = None\<rparr>"
proof -
  have m: "MatchFile e realPath
             = Inr (Match (Matchers e) (take (sniff_len e) (n_data node)))"
    using assms(4,5) by (simp add: MatchFile_readable)
  have opn: "os_Open e realPath = Inr \<lparr>f_Name = realPath, f_node = node\<rparr>"
    using assms(4) by (simp add: os_Open_def)
  show ?thesis
    using assms(1,2,3,5)
    by (simp add: handleDownload_def Let_def m opn io_Copy_def Write_unlimited
                  Header_Add_def new_response_def)
qed

subsection \<open>The download handler\<close>

text \<open>
  C2, as the code has it. The download handler does not cut the prefix off the request
  path: it makes the request path relative to the download prefix with \<^verbatim>\<open>filepath.Rel\<close>,
  which cleans it first. Let that relative path, joined to the root, resolve to an absolute
  path. If that path has the root as prefix and names a file that can be read to its end,
  the download handler (on a connection that accepts every write) answers with exactly the
  file's bytes as body, with the single \<^verbatim>\<open>Content-Type\<close> value equal to the MIME value
  sniffed from the file's leading bytes, and with status 200. If the path does not have
  the root as prefix, the download handler itself rejects the request: the check is made
  inside \<^verbatim>\<open>handleDownload\<close>, on the relative path, whatever the router did before. For a
  request path that is the download prefix, a separator and a cleaned relative path without
  \<^verbatim>\<open>.\<close> or \<^verbatim>\<open>..\<close> elements, the relative path is that path, and it resolves as the
  request path's part after the prefix does.
\<close>

theorem download_returns_file_bytes:
  assumes "filepath_Rel downloadPrefix p = Inr rel"
      and "filepath_Abs (Getwd e) (filepath_Join [root, rel]) = Inr realPath"
  shows "(filepath_HasPrefix realPath root \<longrightarrow> lookup e realPath = Inr node \<longrightarrow>
            n_rderr node = None \<longrightarrow>
              body (handleDownload e (new_response None) p root) = n_data node
            \<and> MatchFile e realPath
                = Inr (Match (Matchers e) (take (sniff_len e) (n_data node)))
            \<and> Header_Values (handleDownload e (new_response None) p root) ''Content-Type''
                = [MIME_Value (MIME (Match (Matchers e) (take (sniff_len e) (n_data node))))]
            \<and> status_code (handleDownload e (new_response None) p root) = 200)
       \<and> (\<not> filepath_HasPrefix realPath root \<longrightarrow>
            handleDownload e (new_response None) p root
              = http_Error (Header_Add (new_response None) ''X-Mediaweb-Handler'' ''download'')
                  ''outside allowed path'' 400
            \<and> status (handleDownload e (new_response None) p root) = Some 400)
       \<and> (cs \<noteq> [] \<longrightarrow> (\<forall>c \<in> set cs. plain_elem c) \<longrightarrow>
            filepath_Rel downloadPrefix (downloadPrefix @ CHR ''/'' # join_sep cs)
              = Inr (join_sep cs)
            \<and> (root \<noteq> [] \<longrightarrow>
                 filepath_Join [root, CHR ''/'' # join_sep cs] = filepath_Join [root, join_sep cs]))"
proof (intro conjI impI)
  assume h: "filepath_HasPrefix realPath root" "lookup e realPath = Inr node"
            "n_rderr node = None"
  note served = handleDownload_serves [OF assms h]
  show "body (handleDownload e (new_response None) p root) = n_data node"
    by (simp add: served)
  show "MatchFile e realPath = Inr (Match (Matchers e) (take (sniff_len e) (n_data node)))"
    using h by (simp add: MatchFile_readable)
  show "Header_Values (handleDownload e (new_response None) p root) ''Content-Type''
          = [MIME_Value (MIME (Match (Matchers e) (take (sniff_len e) (n_data node))))]"
    by (simp add: served Header_Values_def)
  show "status_code (handleDownload e (new_response None) p root) = 200"
    by (simp add: served status_code_def)
next
  assume "\<not> filepath_HasPrefix realPath root"
  then show out: "handleDownload e (new_response None) p root
                  = http_Error (Header_Add (new_response None) ''X-Mediaweb-Handler'' ''download'')
                      ''outside allowed path'' 400"
    using assms by (simp add: handleDownload_def Let_def)
  show "status (handleDownload e (new_response None) p root) = Some 400"
    by (simp add: out)
next
  assume "cs \<noteq> []" "\<forall>c \<in> set cs. plain_elem c"
  then show "filepath_Rel downloadPrefix (downloadPrefix @ CHR ''/'' # join_sep cs)
               = Inr (join_sep cs)"
    by (rule Rel_under_downloadPrefix)
next
  assume "root \<noteq> []"
  then show "filepath_Join [root, CHR ''/'' # join_sep cs] = filepath_Join [root, join_sep cs]"
    by (rule Join_double_separator)
qed

text \<open>
  The specification's scenario: \<^verbatim>\<open>/_download/clip.mp4\<close> against \<^verbatim>\<open>/srv/media\<close> is the
  prefix, a separator and the element \<^verbatim>\<open>clip.mp4\<close>; it returns the bytes of
  \<^verbatim>\<open>/srv/media/clip.mp4\<close> with \<^verbatim>\<open>Content-Type: video/mp4\<close>; and
  \<^verbatim>\<open>/_download/../../etc/passwd\<close> is rejected by the download handler.
\<close>

theorem download_returns_file_bytes_witness:
  "downloadPrefix @ CHR ''/'' # join_sep [''clip.mp4''] = ''/_download/clip.mp4''
   \<and> filepath_Rel downloadPrefix ''/_download/clip.mp4'' = Inr ''clip.mp4''
   \<and> filepath_Join [''/srv/media'', ''/clip.mp4''] = filepath_Join [''/srv/media'', ''clip.mp4'']
   \<and> body (handleDownload scenario (new_response None) ''/_download/clip.mp4'' ''/srv/media'')
     = ''....ftypmp42''
   \<and> Header_Values (handleDownload scenario (new_response None) ''/_download/clip.mp4''
                      ''/srv/media'') ''Content-Type''
     = [''video/mp4'']
   \<and> status_code (handleDownload scenario (new_response None) ''/_download/clip.mp4''
                    ''/srv/media'') = 200
   \<and> status (handleDownload scenario (new_response None) ''/_download/../../etc/passwd''
               ''/srv/media'') = Some 400"
proof -
  have r1: "filepath_Rel downloadPrefix ''/_download/clip.mp4'' = Inr ''clip.mp4''"
    by code_simp
  have r2: "filepath_Abs (Getwd scenario) (filepath_Join [''/srv/media'', ''clip.mp4''])
            = Inr ''/srv/media/clip.mp4''"
    by code_simp
  have r3: "filepath_Rel downloadPrefix ''/_download/../../etc/passwd'' = Inr ''../etc/passwd''"
    by code_simp
  have r4: "filepath_Abs (Getwd scenario) (filepath_Join [''/srv/media'', ''../etc/passwd''])
            = Inr ''/srv/etc/passwd''"
    by code_simp
  have inside: "filepath_HasPrefix ''/srv/media/clip.mp4'' ''/srv/media''"
    by (simp add: filepath_HasPrefix_def)
  have outside: "\<not> filepath_HasPrefix ''/srv/etc/passwd'' ''/srv/media''"
    by (simp add: filepath_HasPrefix_def)
  have node: "lookup scenario ''/srv/media/clip.mp4'' = Inr (regular_file ''....ftypmp42'')"
    by (simp add: scenario_def scenario_lookup_def)
  have eof: "n_rderr (regular_file ''....ftypmp42'') = None"
    by (simp add: regular_file_def)
  have sniffed: "MIME_Value (MIME (Match (Matchers scenario)
                   (take (sniff_len scenario) ''....ftypmp42'')))
                 = ''video/mp4''"
    by (simp add: scenario_sniffer Match_def mp4_def)
  have bytes: "n_data (regular_file ''....ftypmp42'') = ''....ftypmp42''"
    by (simp add: regular_file_def)
  have form: "downloadPrefix @ CHR ''/'' # join_sep [''clip.mp4''] = ''/_download/clip.mp4''"
    by (simp add: downloadPrefix_def)
  have elems: "[''clip.mp4''] \<noteq> []" "\<forall>c \<in> set [''clip.mp4'']. plain_elem c"
              "''/srv/media'' \<noteq> []"
    by (simp_all add: plain_elem_def)
  note T = download_returns_file_bytes [OF r1 r2, of "regular_file ''....ftypmp42''"
                                          "[''clip.mp4'']"]
  from T inside node eof
  have 1: "body (handleDownload scenario (new_response None) ''/_download/clip.mp4''
                   ''/srv/media'') = n_data (regular_file ''....ftypmp42'')
           \<and> Header_Values (handleDownload scenario (new_response None) ''/_download/clip.mp4''
                   ''/srv/media'') ''Content-Type''
             = [MIME_Value (MIME (Match (Matchers scenario)
                   (take (sniff_len scenario) (n_data (regular_file ''....ftypmp42'')))))]
           \<and> status_code (handleDownload scenario (new_response None) ''/_download/clip.mp4''
                   ''/srv/media'') = 200"
    by blast
  from T elems
  have 3: "filepath_Rel downloadPrefix (downloadPrefix @ CHR ''/'' # join_sep [''clip.mp4''])
             = Inr (join_sep [''clip.mp4''])
           \<and> filepath_Join [''/srv/media'', CHR ''/'' # join_sep [''clip.mp4'']]
               = filepath_Join [''/srv/media'', join_sep [''clip.mp4'']]"
    by blast
  from download_returns_file_bytes [OF r3 r4] outside
  have 2: "status (handleDownload scenario (new_response None) ''/_download/../../etc/passwd''
                     ''/srv/media'') = Some 400"
    by blast
  from 3 have 4: "filepath_Rel downloadPrefix ''/_download/clip.mp4'' = Inr ''clip.mp4''
                  \<and> filepath_Join [''/srv/media'', ''/clip.mp4'']
                      = filepath_Join [''/srv/media'', ''clip.mp4'']"
    by (simp add: downloadPrefix_def)
  from 1 2 4 form show ?thesis
    by (simp add: bytes sniffed)
qed

text \<open>
  C2 as it is worded, with the part of the request path after the prefix joined to the
  root, fails: for the request path \<^verbatim>\<open>/_download/../../srv/media/clip.mp4\<close> that part is
  \<^verbatim>\<open>/../../srv/media/clip.mp4\<close>, which joined to \<^verbatim>\<open>/srv/media\<close> resolves to the
  existing file \<^verbatim>\<open>/srv/media/clip.mp4\<close> inside the root. The handler makes the cleaned
  request path relative to the prefix, \<^verbatim>\<open>../srv/media/clip.mp4\<close>, which resolves to
  \<^verbatim>\<open>/srv/srv/media/clip.mp4\<close>, and answers 400 without a byte of the file.
\<close>

theorem download_suffix_counterexample:
  "downloadPrefix @ ''/../../srv/media/clip.mp4'' = ''/_download/../../srv/media/clip.mp4''
   \<and> filepath_Abs (Getwd scenario)
         (filepath_Join [''/srv/media'', ''/../../srv/media/clip.mp4''])
       = Inr ''/srv/media/clip.mp4''
   \<and> filepath_HasPrefix ''/srv/media/clip.mp4'' ''/srv/media''
   \<and> lookup scenario ''/srv/media/clip.mp4'' = Inr (regular_file ''....ftypmp42'')
   \<and> filepath_Rel downloadPrefix ''/_download/../../srv/media/clip.mp4''
       = Inr ''../srv/media/clip.mp4''
   \<and> filepath_Abs (Getwd scenario) (filepath_Join [''/srv/media'', ''../srv/media/clip.mp4''])
       = Inr ''/srv/srv/media/clip.mp4''
   \<and> status (handleDownload scenario (new_response None)
                ''/_download/../../srv/media/clip.mp4'' ''/srv/media'') = Some 400
   \<and> body (handleDownload scenario (new_response None)
              ''/_download/../../srv/media/clip.mp4'' ''/srv/media'')
       = ''outside allowed path\<newline>''"
proof -
  have form: "downloadPrefix @ ''/../../srv/media/clip.mp4''
                = ''/_download/../../srv/media/clip.mp4''"
    by (simp add: downloadPrefix_def)
  have a: "filepath_Abs (Getwd scenario)
             (filepath_Join [''/srv/media'', ''/../../srv/media/clip.mp4''])
           = Inr ''/srv/media/clip.mp4''"
    by code_simp
  have i: "filepath_HasPrefix ''/srv/media/clip.mp4'' ''/srv/media''"
    by (simp add: filepath_HasPrefix_def)
  have node: "lookup scenario ''/srv/media/clip.mp4'' = Inr (regular_file ''....ftypmp42'')"
    by (simp add: scenario_def scenario_lookup_def)
  have r: "filepath_Rel downloadPrefix ''/_download/../../srv/media/clip.mp4''
             = Inr ''../srv/media/clip.mp4''"
    by code_simp
  have b: "filepath_Abs (Getwd scenario) (filepath_Join [''/srv/media'', ''../srv/media/clip.mp4''])
             = Inr ''/srv/srv/media/clip.mp4''"
    by code_simp
  have o: "\<not> filepath_HasPrefix ''/srv/srv/media/clip.mp4'' ''/srv/media''"
    by (simp add: filepath_HasPrefix_def)
  have reply: "handleDownload scenario (new_response None)
                 ''/_download/../../srv/media/clip.mp4'' ''/srv/media''
               = http_Error (Header_Add (new_response None) ''X-Mediaweb-Handler'' ''download'')
                   ''outside allowed path'' 400"
    using o by (simp add: handleDownload_def Let_def r b)
  have st: "status (handleDownload scenario (new_response None)
                ''/_download/../../srv/media/clip.mp4'' ''/srv/media'') = Some 400"
    by (simp add: reply)
  have bd: "body (handleDownload scenario (new_response None)
              ''/_download/../../srv/media/clip.mp4'' ''/srv/media'')
       = ''outside allowed path\<newline>''"
    unfolding reply
    by (simp add: body_http_Error_unlimited Header_Add_def new_response_def)
  show ?thesis
    by (intro conjI) (rule form, rule a, rule i, rule node, rule r, rule b, rule st, rule bd)
qed

subsection \<open>The router\<close>

text \<open>
  C4. The router, on a response that has not been started: a path that starts with the
  download prefix goes to the download handler. Any other path is joined to the root and
  made absolute; the answer is 400 if that fails, 400 if the result does not have the root
  as prefix, 400 if the result cannot be opened, 500 if the opened file cannot be examined;
  a directory goes to the listing handler and anything else to the file handler.
\<close>

theorem router_decision_order:
  assumes "status w = None"
  shows "(filepath_HasPrefix p downloadPrefix \<longrightarrow>
            handlerFunc root e w p = handleDownload e w p root)
       \<and> (\<not> filepath_HasPrefix p downloadPrefix \<longrightarrow>
            (filepath_Abs (Getwd e) (filepath_Join [root, p]) = Inl err0 \<longrightarrow>
               status (handlerFunc root e w p) = Some 400)
          \<and> (filepath_Abs (Getwd e) (filepath_Join [root, p]) = Inr realPath \<longrightarrow>
               (\<not> filepath_HasPrefix realPath root \<longrightarrow>
                  status (handlerFunc root e w p) = Some 400)
             \<and> (filepath_HasPrefix realPath root \<longrightarrow>
                  (os_Open e realPath = Inl err1 \<longrightarrow>
                     status (handlerFunc root e w p) = Some 400)
                \<and> (os_Open e realPath = Inr f \<longrightarrow>
                     (n_Stat (f_node f) = Inl err2 \<longrightarrow>
                        status (handlerFunc root e w p) = Some 500)
                   \<and> (n_Stat (f_node f) = Inr True \<longrightarrow>
                        handlerFunc root e w p = handleDir e w p f)
                   \<and> (n_Stat (f_node f) = Inr False \<longrightarrow>
                        handlerFunc root e w p = handleFile e w p f)))))"
  using assms
  by (simp add: handlerFunc_def downloadPrefix_def)

text \<open>
  Each branch of the router, run once: the download prefix; a relative root with no working
  directory; an escape from the root; a missing file; a file that cannot be examined; a
  directory; a file.
\<close>

theorem router_decision_order_witness:
  "handlerFunc ''/srv/media'' scenario (new_response None) ''/_download/clip.mp4''
     = handleDownload scenario (new_response None) ''/_download/clip.mp4'' ''/srv/media''
   \<and> status (handlerFunc ''media'' (scenario\<lparr>Getwd := Inl (Error ''getwd failed'')\<rparr>)
                (new_response None) ''/x'') = Some 400
   \<and> status (handlerFunc ''/srv/media'' scenario (new_response None) ''/../outside'') = Some 400
   \<and> status (handlerFunc ''/srv/media'' scenario (new_response None) ''/missing'') = Some 400
   \<and> status (handlerFunc ''/srv/media''
                (scenario\<lparr>lookup := (\<lambda>p. Inr ((regular_file [])\<lparr>n_Stat := Inl (Error ''stat failed'')\<rparr>))\<rparr>)
                (new_response None) ''/a'') = Some 500
   \<and> handlerFunc ''/srv/media'' scenario (new_response None) ''/movies''
       = handleDir scenario (new_response None) ''/movies''
           \<lparr>f_Name = ''/srv/media/movies'', f_node = directory []\<rparr>
   \<and> handlerFunc ''/srv/media'' scenario (new_response None) ''/clip.mp4''
       = handleFile scenario (new_response None) ''/clip.mp4''
           \<lparr>f_Name = ''/srv/media/clip.mp4'', f_node = regular_file ''....ftypmp42''\<rparr>"
proof -
  let ?w = "new_response None"
  let ?nowd = "scenario\<lparr>Getwd := Inl (Error ''getwd failed'')\<rparr>"
  let ?nostat = "scenario\<lparr>lookup := (\<lambda>p. Inr ((regular_file [])\<lparr>n_Stat := Inl (Error ''stat failed'')\<rparr>))\<rparr>"
  note fresh = status_new_response [of None]

  have d1: "filepath_HasPrefix ''/_download/clip.mp4'' downloadPrefix"
    by (simp add: filepath_HasPrefix_def downloadPrefix_def)
  from router_decision_order [OF fresh, where p = "''/_download/clip.mp4''"] d1
  have 1: "handlerFunc ''/srv/media'' scenario ?w ''/_download/clip.mp4''
             = handleDownload scenario ?w ''/_download/clip.mp4'' ''/srv/media''"
    by blast

  have d2: "\<not> filepath_HasPrefix ''/x'' downloadPrefix"
    by (simp add: filepath_HasPrefix_def downloadPrefix_def)
  have j2: "filepath_Join [''media'', ''/x''] = ''media/x''"
    by code_simp
  have a2: "filepath_Abs (Getwd ?nowd) (filepath_Join [''media'', ''/x''])
              = Inl (Error ''getwd failed'')"
    by (simp add: j2 filepath_Abs_def filepath_IsAbs_def filepath_HasPrefix_def)
  from router_decision_order [OF fresh, where p = "''/x''" and root = "''media''" and e = ?nowd
                                and ?err0.0 = "Error ''getwd failed''"] d2 a2
  have 2: "status (handlerFunc ''media'' ?nowd ?w ''/x'') = Some 400"
    by blast

  have d3: "\<not> filepath_HasPrefix ''/../outside'' downloadPrefix"
    by (simp add: filepath_HasPrefix_def downloadPrefix_def)
  have a3: "filepath_Abs (Getwd scenario) (filepath_Join [''/srv/media'', ''/../outside''])
              = Inr ''/srv/outside''"
    by code_simp
  have o3: "\<not> filepath_HasPrefix ''/srv/outside'' ''/srv/media''"
    by (simp add: filepath_HasPrefix_def)
  from router_decision_order [OF fresh, where p = "''/../outside''" and root = "''/srv/media''"
                                and e = scenario and realPath = "''/srv/outside''"] d3 a3 o3
  have 3: "status (handlerFunc ''/srv/media'' scenario ?w ''/../outside'') = Some 400"
    by blast

  have d4: "\<not> filepath_HasPrefix ''/missing'' downloadPrefix"
    by (simp add: filepath_HasPrefix_def downloadPrefix_def)
  have a4: "filepath_Abs (Getwd scenario) (filepath_Join [''/srv/media'', ''/missing''])
              = Inr ''/srv/media/missing''"
    by code_simp
  have i4: "filepath_HasPrefix ''/srv/media/missing'' ''/srv/media''"
    by (simp add: filepath_HasPrefix_def)
  have o4: "os_Open scenario ''/srv/media/missing'' = Inl (Error ''no such file or directory'')"
    by (simp add: os_Open_def scenario_def scenario_lookup_def)
  from router_decision_order [OF fresh, where p = "''/missing''" and root = "''/srv/media''"
                                and e = scenario and realPath = "''/srv/media/missing''"
                                and ?err1.0 = "Error ''no such file or directory''"]
       d4 a4 i4 o4
  have 4: "status (handlerFunc ''/srv/media'' scenario ?w ''/missing'') = Some 400"
    by blast

  have d5: "\<not> filepath_HasPrefix ''/a'' downloadPrefix"
    by (simp add: filepath_HasPrefix_def downloadPrefix_def)
  have j5: "filepath_Join [''/srv/media'', ''/a''] = ''/srv/media/a''"
    by code_simp
  have c5: "filepath_Clean ''/srv/media/a'' = ''/srv/media/a''"
    by code_simp
  have a5: "filepath_Abs (Getwd ?nostat) (filepath_Join [''/srv/media'', ''/a''])
              = Inr ''/srv/media/a''"
    by (simp add: j5 c5 filepath_Abs_def filepath_IsAbs_def filepath_HasPrefix_def)
  have i5: "filepath_HasPrefix ''/srv/media/a'' ''/srv/media''"
    by (simp add: filepath_HasPrefix_def)
  have o5: "os_Open ?nostat ''/srv/media/a''
              = Inr \<lparr>f_Name = ''/srv/media/a'',
                     f_node = (regular_file [])\<lparr>n_Stat := Inl (Error ''stat failed'')\<rparr>\<rparr>"
    by (simp add: os_Open_def)
  have s5: "n_Stat (f_node \<lparr>f_Name = ''/srv/media/a'',
                            f_node = (regular_file [])\<lparr>n_Stat := Inl (Error ''stat failed'')\<rparr>\<rparr>)
              = Inl (Error ''stat failed'')"
    by simp
  from router_decision_order [OF fresh, where p = "''/a''" and root = "''/srv/media''"
                                and e = ?nostat and realPath = "''/srv/media/a''"
                                and f = "\<lparr>f_Name = ''/srv/media/a'',
                                          f_node = (regular_file [])\<lparr>n_Stat := Inl (Error ''stat failed'')\<rparr>\<rparr>"
                                and ?err2.0 = "Error ''stat failed''"]
       d5 a5 i5 o5 s5
  have 5: "status (handlerFunc ''/srv/media'' ?nostat ?w ''/a'') = Some 500"
    by blast

  have d6: "\<not> filepath_HasPrefix ''/movies'' downloadPrefix"
    by (simp add: filepath_HasPrefix_def downloadPrefix_def)
  have a6: "filepath_Abs (Getwd scenario) (filepath_Join [''/srv/media'', ''/movies''])
              = Inr ''/srv/media/movies''"
    by code_simp
  have i6: "filepath_HasPrefix ''/srv/media/movies'' ''/srv/media''"
    by (simp add: filepath_HasPrefix_def)
  have o6: "os_Open scenario ''/srv/media/movies''
              = Inr \<lparr>f_Name = ''/srv/media/movies'', f_node = directory []\<rparr>"
    by (simp add: os_Open_def scenario_def scenario_lookup_def)
  have s6: "n_Stat (f_node \<lparr>f_Name = ''/srv/media/movies'', f_node = directory []\<rparr>) = Inr True"
    by (simp add: directory_def)
  from router_decision_order [OF fresh, where p = "''/movies''" and root = "''/srv/media''"
                                and e = scenario and realPath = "''/srv/media/movies''"
                                and f = "\<lparr>f_Name = ''/srv/media/movies'', f_node = directory []\<rparr>"]
       d6 a6 i6 o6 s6
  have 6: "handlerFunc ''/srv/media'' scenario ?w ''/movies''
             = handleDir scenario ?w ''/movies''
                 \<lparr>f_Name = ''/srv/media/movies'', f_node = directory []\<rparr>"
    by blast

  have d7: "\<not> filepath_HasPrefix ''/clip.mp4'' downloadPrefix"
    by (simp add: filepath_HasPrefix_def downloadPrefix_def)
  have a7: "filepath_Abs (Getwd scenario) (filepath_Join [''/srv/media'', ''/clip.mp4''])
              = Inr ''/srv/media/clip.mp4''"
    by code_simp
  have i7: "filepath_HasPrefix ''/srv/media/clip.mp4'' ''/srv/media''"
    by (simp add: filepath_HasPrefix_def)
  have s7: "n_Stat (f_node \<lparr>f_Name = ''/srv/media/clip.mp4'',
                            f_node = regular_file ''....ftypmp42''\<rparr>) = Inr False"
    by (simp add: regular_file_def)
  from router_decision_order [OF fresh, where p = "''/clip.mp4''" and root = "''/srv/media''"
                                and e = scenario and realPath = "''/srv/media/clip.mp4''"
                                and f = "\<lparr>f_Name = ''/srv/media/clip.mp4'',
                                          f_node = regular_file ''....ftypmp42''\<rparr>"]
       d7 a7 i7 scenario_Open_clip s7
  have 7: "handlerFunc ''/srv/media'' scenario ?w ''/clip.mp4''
             = handleFile scenario ?w ''/clip.mp4''
                 \<lparr>f_Name = ''/srv/media/clip.mp4'', f_node = regular_file ''....ftypmp42''\<rparr>"
    by blast

  from 1 2 3 4 5 6 7 show ?thesis by blast
qed

subsection \<open>The prefix comparison accepts siblings of the root\<close>

text \<open>
  C10. The check compares strings, so every resolved path that begins with the bytes of
  the root passes it, whether or not a separator follows: when the absolute, cleaned join
  of root and path is the root followed by any suffix, the router goes on to open that
  path and hands it to the listing or file handler, and the download handler sends its
  bytes.
\<close>

theorem string_prefix_accepts_sibling:
  assumes "filepath_Abs (Getwd e) (filepath_Join [root, rel]) = Inr (root @ suffix)"
      and "lookup e (root @ suffix) = Inr node"
  shows "(\<not> filepath_HasPrefix rel ''/_download'' \<longrightarrow> n_Stat node = Inr isDir \<longrightarrow>
            handlerFunc root e w rel
              = (if isDir then handleDir e w rel \<lparr>f_Name = root @ suffix, f_node = node\<rparr>
                 else handleFile e w rel \<lparr>f_Name = root @ suffix, f_node = node\<rparr>))
       \<and> (filepath_Rel downloadPrefix p = Inr rel \<longrightarrow> n_rderr node = None \<longrightarrow>
            body (handleDownload e (new_response None) p root) = n_data node
          \<and> status_code (handleDownload e (new_response None) p root) = 200)"
proof (intro conjI impI)
  assume "\<not> filepath_HasPrefix rel ''/_download''" "n_Stat node = Inr isDir"
  then show "handlerFunc root e w rel
              = (if isDir then handleDir e w rel \<lparr>f_Name = root @ suffix, f_node = node\<rparr>
                 else handleFile e w rel \<lparr>f_Name = root @ suffix, f_node = node\<rparr>)"
    using assms by (simp add: handlerFunc_def os_Open_def)
next
  assume h: "filepath_Rel downloadPrefix p = Inr rel" "n_rderr node = None"
  note served = handleDownload_serves [OF h(1) assms(1) filepath_HasPrefix_append assms(2) h(2)]
  show "body (handleDownload e (new_response None) p root) = n_data node"
    by (simp add: served)
  show "status_code (handleDownload e (new_response None) p root) = 200"
    by (simp add: served status_code_def)
qed

text \<open>
  With the root \<^verbatim>\<open>/srv/media\<close>, the request \<^verbatim>\<open>/../media2/x\<close> resolves to
  \<^verbatim>\<open>/srv/media2/x\<close>, which is neither the root nor below it, and gets the player page
  for that file; the request \<^verbatim>\<open>/_download/../media2/x\<close> gets its bytes.
\<close>

theorem string_prefix_accepts_sibling_witness:
  "filepath_Abs (Getwd scenario) (filepath_Join [''/srv/media'', ''/../media2/x''])
     = Inr ''/srv/media2/x''
   \<and> ''/srv/media2/x'' \<noteq> ''/srv/media''
   \<and> \<not> filepath_HasPrefix ''/srv/media2/x'' ''/srv/media/''
   \<and> handlerFunc ''/srv/media'' scenario (new_response None) ''/../media2/x''
       = handleFile scenario (new_response None) ''/../media2/x''
           \<lparr>f_Name = ''/srv/media2/x'', f_node = regular_file ''secret''\<rparr>
   \<and> status_code (handlerFunc ''/srv/media'' scenario (new_response None) ''/../media2/x'') = 200
   \<and> body (handleDownload scenario (new_response None) ''/_download/../media2/x'' ''/srv/media'')
       = ''secret''
   \<and> status_code (handleDownload scenario (new_response None) ''/_download/../media2/x''
                    ''/srv/media'') = 200"
proof -
  let ?w = "new_response None"
  have a1: "filepath_Abs (Getwd scenario) (filepath_Join [''/srv/media'', ''/../media2/x''])
              = Inr (''/srv/media'' @ ''2/x'')"
    by code_simp
  have r2: "filepath_Rel downloadPrefix ''/_download/../media2/x'' = Inr ''../media2/x''"
    by code_simp
  have a2: "filepath_Abs (Getwd scenario) (filepath_Join [''/srv/media'', ''../media2/x''])
              = Inr (''/srv/media'' @ ''2/x'')"
    by code_simp
  have node: "lookup scenario (''/srv/media'' @ ''2/x'') = Inr (regular_file ''secret'')"
    by (simp add: scenario_def scenario_lookup_def)
  have d: "\<not> filepath_HasPrefix ''/../media2/x'' ''/_download''"
    by (simp add: filepath_HasPrefix_def)
  have st: "n_Stat (regular_file ''secret'') = Inr False"
    by (simp add: regular_file_def)
  have eof: "n_rderr (regular_file ''secret'') = None"
    by (simp add: regular_file_def)
  from string_prefix_accepts_sibling [OF a1 node, where isDir = False and w = ?w] d st
  have 1: "handlerFunc ''/srv/media'' scenario ?w ''/../media2/x''
             = handleFile scenario ?w ''/../media2/x''
                 \<lparr>f_Name = ''/srv/media'' @ ''2/x'', f_node = regular_file ''secret''\<rparr>"
    by simp
  from string_prefix_accepts_sibling [OF a2 node, where p = "''/_download/../media2/x''"] r2 eof
  have 2: "body (handleDownload scenario ?w ''/_download/../media2/x'' ''/srv/media'')
             = n_data (regular_file ''secret'')
           \<and> status_code (handleDownload scenario ?w ''/_download/../media2/x'' ''/srv/media'')
             = 200"
    by blast
  have page: "status_code (handleFile scenario ?w ''/../media2/x''
                 \<lparr>f_Name = ''/srv/media2/x'', f_node = regular_file ''secret''\<rparr>) = 200"
    by (simp add: handleFile_def Let_def scenario_Match_x Execute_def Write_unlimited
                  new_response_def Header_Add_def status_code_def)
  have outside: "''/srv/media2/x'' \<noteq> ''/srv/media''
                 \<and> \<not> filepath_HasPrefix ''/srv/media2/x'' ''/srv/media/''"
    by (simp add: filepath_HasPrefix_def)
  from a1 1 2 page outside show ?thesis
    by (simp add: regular_file_def)
qed

subsection \<open>The listing\<close>

text \<open>What the loop of the listing handler yields when it ends without an error.\<close>

lemma dirEntries_Inr:
  "dirEntries e d infos acc = Inr entries \<Longrightarrow>
   \<exists>new. entries = acc @ new \<and>
     list_all2 (\<lambda>info en.
        Name en = fi_Name info
        \<and> (fi_IsDir info \<longrightarrow> BuildLink en \<and> Type en = ''directory'')
        \<and> (\<not> fi_IsDir info \<longrightarrow>
              (\<exists>ft. MatchFile e (filepath_Join [d, fi_Name info]) = Inr ft
                    \<and> BuildLink en = (MIME_Type (MIME ft) = ''video'')
                    \<and> Type en = Extension ft))) infos new"
proof (induction infos arbitrary: acc)
  case Nil
  then show ?case by simp
next
  case (Cons info infos)
  show ?case
  proof (cases "fi_IsDir info")
    case True
    with Cons.prems have "dirEntries e d infos
        (acc @ [\<lparr>BuildLink = True, Name = fi_Name info, Type = ''directory''\<rparr>]) = Inr entries"
      by simp
    from Cons.IH [OF this] True show ?thesis by auto
  next
    case False
    with Cons.prems obtain ft where
      ft: "MatchFile e (filepath_Join [d, fi_Name info]) = Inr ft" and
      rest: "dirEntries e d infos
               (acc @ [\<lparr>BuildLink = (MIME_Type (MIME ft) = ''video''), Name = fi_Name info,
                        Type = Extension ft\<rparr>]) = Inr entries"
      by (auto split: sum.splits)
    from Cons.IH [OF rest] False ft show ?thesis by auto
  qed
qed


text \<open>The loop ends with the error of the first child that cannot be sniffed.\<close>

lemma dirEntries_first_failure:
  "info \<in> set infos \<Longrightarrow> \<not> fi_IsDir info \<Longrightarrow>
   MatchFile e (filepath_Join [d, fi_Name info]) = Inl err0 \<Longrightarrow>
   \<exists>pre bad post err.
      infos = pre @ bad # post
      \<and> (\<forall>i \<in> set pre. fi_IsDir i \<or> (\<exists>ft. MatchFile e (filepath_Join [d, fi_Name i]) = Inr ft))
      \<and> \<not> fi_IsDir bad
      \<and> MatchFile e (filepath_Join [d, fi_Name bad]) = Inl err
      \<and> dirEntries e d infos acc = Inl err"
proof (induction infos arbitrary: acc)
  case Nil
  then show ?case by simp
next
  case (Cons x xs)
  show ?case
  proof (cases "fi_IsDir x \<or> (\<exists>ft. MatchFile e (filepath_Join [d, fi_Name x]) = Inr ft)")
    case True
    with Cons.prems have "info \<in> set xs" by auto
    from True have "\<exists>acc'. dirEntries e d (x # xs) acc = dirEntries e d xs acc'"
      by (cases "fi_IsDir x") auto
    then obtain acc' where step: "dirEntries e d (x # xs) acc = dirEntries e d xs acc'" ..
    from Cons.IH [OF \<open>info \<in> set xs\<close> Cons.prems(2,3), of acc']
    obtain pre bad post err where
      *: "xs = pre @ bad # post"
         "\<forall>i \<in> set pre. fi_IsDir i \<or> (\<exists>ft. MatchFile e (filepath_Join [d, fi_Name i]) = Inr ft)"
         "\<not> fi_IsDir bad" "MatchFile e (filepath_Join [d, fi_Name bad]) = Inl err"
         "dirEntries e d xs acc' = Inl err"
      by blast
    have "x # xs = (x # pre) @ bad # post" using * by simp
    moreover have "\<forall>i \<in> set (x # pre).
        fi_IsDir i \<or> (\<exists>ft. MatchFile e (filepath_Join [d, fi_Name i]) = Inr ft)"
      using * True by simp
    ultimately show ?thesis using * step by metis
  next
    case False
    then obtain err where err: "MatchFile e (filepath_Join [d, fi_Name x]) = Inl err"
      by (cases "MatchFile e (filepath_Join [d, fi_Name x])") auto
    with False have "dirEntries e d (x # xs) acc = Inl err" by simp
    moreover have "x # xs = [] @ x # xs" by simp
    ultimately show ?thesis using False err by (metis empty_iff list.set(1))
  qed
qed

lemma handleDir_listing:
  assumes "n_Readdir (f_node dir) = Inr infos"
      and "dirEntries e (f_Name dir) infos [] = Inr entries"
  shows "handleDir e (new_response None) p dir =
           \<lparr>status = Some 200, headers = [(''X-Mediaweb-Handler'', ''dir'')],
            body = dirTemplate (f_Name dir) entries (filepath_Join [''/'', p]),
            sink = None\<rparr>"
  using assms
  by (simp add: handleDir_def Let_def Execute_def Write_unlimited Header_Add_def
                new_response_def)

lemma handleDir_aborts:
  assumes "n_Readdir (f_node dir) = Inr infos"
      and "dirEntries e (f_Name dir) infos [] = Inl err"
  shows "handleDir e w p dir
           = http_Error (Header_Add w ''X-Mediaweb-Handler'' ''dir'') (message err) 500"
  using assms by (simp add: handleDir_def Let_def)

lemma body_WriteHeader [simp]: "body (WriteHeader w code) = body w"
  by (simp add: WriteHeader_def)

lemma body_Write_prefix:
  assumes "body w = []"
  shows "\<exists>k. body (fst (Write w txt)) = take k txt"
proof (cases "sink w")
  case None
  with assms have "body (fst (Write w txt)) = take (length txt) txt"
    by (simp add: Write_unlimited)
  then show ?thesis ..
next
  case (Some a)
  obtain k0 e0 where a: "a = (k0, e0)" by (cases a)
  show ?thesis
  proof (cases "length txt \<le> k0")
    case True
    with assms Some a have "body (fst (Write w txt)) = take (length txt) txt"
      by (simp add: Write_def WriteHeader_def Let_def)
    then show ?thesis ..
  next
    case False
    with assms Some a have "body (fst (Write w txt)) = take k0 txt"
      by (simp add: Write_def WriteHeader_def Let_def)
    then show ?thesis ..
  qed
qed

lemma body_http_Error_prefix:
  assumes "body w = []"
  shows "\<exists>k. body (http_Error w err code) = take k (err @ ''\<newline>'')"
  unfolding http_Error_def Let_def
  by (rule body_Write_prefix) (simp add: assms)

lemma dirTemplate_entry_text:
  "dirTemplate_entry parent en =
     (let target = filepath_Join [parent, Name en]
      in if BuildLink en
         then ''\<newline>\<newline><li><a href='' @ [CHR 0x22] @ target @ [CHR 0x22] @ ''>'' @ target
              @ ''</a></li>\<newline>\<newline>''
         else ''\<newline>\<newline><li>'' @ target @ ''</li>\<newline>\<newline>'')"
  by (simp add: dirTemplate_entry_def text_lines_def Let_def)

lemma scenario_root_entries:
  "dirEntries scenario ''/srv/media''
     [\<lparr>fi_Name = ''movies'', fi_IsDir = True\<rparr>,
      \<lparr>fi_Name = ''notes.txt'', fi_IsDir = False\<rparr>,
      \<lparr>fi_Name = ''clip.mp4'', fi_IsDir = False\<rparr>] []
   = Inr [\<lparr>BuildLink = True, Name = ''movies'', Type = ''directory''\<rparr>,
          \<lparr>BuildLink = False, Name = ''notes.txt'', Type = ''unknown''\<rparr>,
          \<lparr>BuildLink = True, Name = ''clip.mp4'', Type = ''mp4''\<rparr>]"
proof -
  have j1: "filepath_Join [''/srv/media'', ''notes.txt''] = ''/srv/media/notes.txt''"
    by code_simp
  have j2: "filepath_Join [''/srv/media'', ''clip.mp4''] = ''/srv/media/clip.mp4''"
    by code_simp
  show ?thesis
    by (simp add: j1 j2 scenario_Match_notes scenario_Match_clip Unknown_def mp4_def)
qed

subsection \<open>The listing handler\<close>



text \<open>
  C9. Let the directory be read and let some child that is not a directory fail to be
  sniffed. Then the listing handler answers with \<^verbatim>\<open>http.Error\<close> and status 500, carrying
  the error of the first such child in the directory's order; the body holds nothing but
  (a prefix of) that error's text, the whole text when the connection accepts every write:
  no part of the listing page is written.
\<close>

theorem listing_aborts_on_classification_error:
  assumes "n_Readdir (f_node dir) = Inr infos"
      and "info \<in> set infos" and "\<not> fi_IsDir info"
      and "MatchFile e (filepath_Join [f_Name dir, fi_Name info]) = Inl err0"
  shows "\<exists>pre bad post err.
           infos = pre @ bad # post
         \<and> (\<forall>i \<in> set pre. fi_IsDir i
                \<or> (\<exists>ft. MatchFile e (filepath_Join [f_Name dir, fi_Name i]) = Inr ft))
         \<and> \<not> fi_IsDir bad
         \<and> MatchFile e (filepath_Join [f_Name dir, fi_Name bad]) = Inl err
         \<and> handleDir e (new_response s) p dir
             = http_Error (Header_Add (new_response s) ''X-Mediaweb-Handler'' ''dir'')
                 (message err) 500
         \<and> status (handleDir e (new_response s) p dir) = Some 500
         \<and> (\<exists>k. body (handleDir e (new_response s) p dir)
                    = take k (message err @ ''\<newline>''))
         \<and> (s = None \<longrightarrow> body (handleDir e (new_response s) p dir)
                              = message err @ ''\<newline>'')"
proof -
  from dirEntries_first_failure [OF assms(2,3,4), of "[]"]
  obtain pre bad post err where
    *: "infos = pre @ bad # post"
       "\<forall>i \<in> set pre. fi_IsDir i
           \<or> (\<exists>ft. MatchFile e (filepath_Join [f_Name dir, fi_Name i]) = Inr ft)"
       "\<not> fi_IsDir bad"
       "MatchFile e (filepath_Join [f_Name dir, fi_Name bad]) = Inl err"
       "dirEntries e (f_Name dir) infos [] = Inl err"
    by blast
  let ?w = "Header_Add (new_response s) ''X-Mediaweb-Handler'' ''dir''"
  have abort: "handleDir e (new_response s) p dir = http_Error ?w (message err) 500"
    by (rule handleDir_aborts [OF assms(1) *(5)])
  have st: "status (handleDir e (new_response s) p dir) = Some 500"
    by (simp add: abort)
  have "body ?w = []"
    by (simp add: new_response_def)
  then have pre: "\<exists>k. body (handleDir e (new_response s) p dir)
                        = take k (message err @ ''\<newline>'')"
    unfolding abort by (rule body_http_Error_prefix)
  have whole: "s = None \<longrightarrow> body (handleDir e (new_response s) p dir)
                              = message err @ ''\<newline>''"
    unfolding abort by (simp add: body_http_Error_unlimited new_response_def)
  from * abort st pre whole show ?thesis by blast
qed

text \<open>
  The scenario with \<^verbatim>\<open>notes.txt\<close> made unreadable: the listing of the root is status 500
  with the error text as its whole body.
\<close>

theorem listing_aborts_on_classification_error_witness:
  "status (handleDir (scenario\<lparr>lookup := (\<lambda>p. if p = ''/srv/media/notes.txt''
                                                 then Inl (Error ''permission denied'')
                                                 else scenario_lookup p)\<rparr>)
             (new_response None) ''/''
             \<lparr>f_Name = ''/srv/media'',
              f_node = directory [\<lparr>fi_Name = ''movies'', fi_IsDir = True\<rparr>,
                                  \<lparr>fi_Name = ''notes.txt'', fi_IsDir = False\<rparr>,
                                  \<lparr>fi_Name = ''clip.mp4'', fi_IsDir = False\<rparr>]\<rparr>)
     = Some 500
   \<and> body (handleDir (scenario\<lparr>lookup := (\<lambda>p. if p = ''/srv/media/notes.txt''
                                                 then Inl (Error ''permission denied'')
                                                 else scenario_lookup p)\<rparr>)
             (new_response None) ''/''
             \<lparr>f_Name = ''/srv/media'',
              f_node = directory [\<lparr>fi_Name = ''movies'', fi_IsDir = True\<rparr>,
                                  \<lparr>fi_Name = ''notes.txt'', fi_IsDir = False\<rparr>,
                                  \<lparr>fi_Name = ''clip.mp4'', fi_IsDir = False\<rparr>]\<rparr>)
     = ''permission denied\<newline>''"
proof -
  let ?e = "scenario\<lparr>lookup := (\<lambda>p. if p = ''/srv/media/notes.txt''
                                        then Inl (Error ''permission denied'')
                                        else scenario_lookup p)\<rparr>"
  let ?notes = "\<lparr>fi_Name = ''notes.txt'', fi_IsDir = False\<rparr>"
  let ?infos = "[\<lparr>fi_Name = ''movies'', fi_IsDir = True\<rparr>, ?notes,
                 \<lparr>fi_Name = ''clip.mp4'', fi_IsDir = False\<rparr>]"
  let ?dir = "\<lparr>f_Name = ''/srv/media'', f_node = directory ?infos\<rparr>"
  have rd: "n_Readdir (f_node ?dir) = Inr ?infos"
    by (simp add: directory_def)
  have j1: "filepath_Join [''/srv/media'', ''notes.txt''] = ''/srv/media/notes.txt''"
    by code_simp
  have j2: "filepath_Join [''/srv/media'', ''clip.mp4''] = ''/srv/media/clip.mp4''"
    by code_simp
  have m1: "MatchFile ?e (filepath_Join [f_Name ?dir, fi_Name ?notes])
              = Inl (Error ''permission denied'')"
    by (simp add: j1 MatchFile_def os_Open_def)
  have m2: "MatchFile ?e ''/srv/media/clip.mp4'' = Inr mp4"
    by (simp add: MatchFile_def os_Open_def scenario_lookup_def first_Read_def
                  regular_file_def Match_def scenario_def)
  have mem: "?notes \<in> set ?infos" by simp
  have nd: "\<not> fi_IsDir ?notes" by simp
  from listing_aborts_on_classification_error [OF rd mem nd m1, of None "''/''"]
  obtain pre bad post err where
    bad: "?infos = pre @ bad # post" "\<not> fi_IsDir bad"
         "MatchFile ?e (filepath_Join [f_Name ?dir, fi_Name bad]) = Inl err" and
    st: "status (handleDir ?e (new_response None) ''/'' ?dir) = Some 500" and
    bd: "body (handleDir ?e (new_response None) ''/'' ?dir) = message err @ ''\<newline>''"
    by blast
  from bad(1) have "bad \<in> set ?infos"
    by (metis in_set_conv_decomp)
  with bad(2) have "bad = ?notes \<or> bad = \<lparr>fi_Name = ''clip.mp4'', fi_IsDir = False\<rparr>"
    by auto
  with bad(3) have "err = Error ''permission denied''"
    using m1 m2 by (auto simp: j2)
  with st bd show ?thesis by simp
qed

subsection \<open>Type labels in the listing\<close>

text \<open>
  C8, as the code has it. Every entry carries a type label in its record: \<^verbatim>\<open>directory\<close>
  for a directory, the sniffed extension for any other child. The template never prints the
  label: an entry that is not a link is rendered as plain text holding only the parent
  path joined with its name, and changing the labels changes neither an entry's text nor
  the page.
\<close>

theorem listing_entry_rendering:
  assumes "dirEntries e d infos [] = Inr entries"
  shows "length entries = length infos
       \<and> (\<forall>i < length infos.
            (fi_IsDir (infos ! i) \<longrightarrow> Type (entries ! i) = ''directory'')
          \<and> (\<not> fi_IsDir (infos ! i) \<longrightarrow>
               (\<exists>ft. MatchFile e (filepath_Join [d, fi_Name (infos ! i)]) = Inr ft
                     \<and> Type (entries ! i) = Extension ft))
          \<and> (\<not> BuildLink (entries ! i) \<longrightarrow>
               dirTemplate_entry parent (entries ! i)
                 = ''\<newline>\<newline><li>'' @ filepath_Join [parent, fi_Name (infos ! i)]
                   @ ''</li>\<newline>\<newline>'')
          \<and> dirTemplate_entry parent ((entries ! i)\<lparr>Type := label\<rparr>)
               = dirTemplate_entry parent (entries ! i))
       \<and> dirTemplate title (map (\<lambda>en. en\<lparr>Type := label\<rparr>) entries) parent
           = dirTemplate title entries parent"
proof -
  from dirEntries_Inr [OF assms]
  have rel: "list_all2 (\<lambda>info en.
        Name en = fi_Name info
        \<and> (fi_IsDir info \<longrightarrow> BuildLink en \<and> Type en = ''directory'')
        \<and> (\<not> fi_IsDir info \<longrightarrow>
              (\<exists>ft. MatchFile e (filepath_Join [d, fi_Name info]) = Inr ft
                    \<and> BuildLink en = (MIME_Type (MIME ft) = ''video'')
                    \<and> Type en = Extension ft))) infos entries"
    by simp
  then have len: "length entries = length infos"
    by (simp add: list_all2_lengthD)
  have same: "dirTemplate_entry parent (en\<lparr>Type := label\<rparr>) = dirTemplate_entry parent en"
    for en
    by (simp add: dirTemplate_entry_def)
  have each: "(fi_IsDir (infos ! i) \<longrightarrow> Type (entries ! i) = ''directory'')
          \<and> (\<not> fi_IsDir (infos ! i) \<longrightarrow>
               (\<exists>ft. MatchFile e (filepath_Join [d, fi_Name (infos ! i)]) = Inr ft
                     \<and> Type (entries ! i) = Extension ft))
          \<and> (\<not> BuildLink (entries ! i) \<longrightarrow>
               dirTemplate_entry parent (entries ! i)
                 = ''\<newline>\<newline><li>'' @ filepath_Join [parent, fi_Name (infos ! i)]
                   @ ''</li>\<newline>\<newline>'')
          \<and> dirTemplate_entry parent ((entries ! i)\<lparr>Type := label\<rparr>)
               = dirTemplate_entry parent (entries ! i)"
    if "i < length infos" for i
    using list_all2_nthD [OF rel that]
    by (auto simp: same dirTemplate_entry_text [of _ "entries ! i"] Let_def)
  have "map (dirTemplate_entry parent) (map (\<lambda>en. en\<lparr>Type := label\<rparr>) entries)
          = map (dirTemplate_entry parent) entries"
    by (simp add: same)
  then have "dirTemplate title (map (\<lambda>en. en\<lparr>Type := label\<rparr>) entries) parent
           = dirTemplate title entries parent"
    by (simp only: dirTemplate_def)
  with len each show ?thesis by blast
qed

text \<open>
  The three entries of the scenario's root: \<^verbatim>\<open>movies\<close> is labelled \<^verbatim>\<open>directory\<close>,
  \<^verbatim>\<open>notes.txt\<close> is labelled with the extension of the unknown type and rendered as the
  text \<^verbatim>\<open>/notes.txt\<close>, the same under any other label.
\<close>

theorem listing_entry_rendering_witness:
  "Type (\<lparr>BuildLink = True, Name = ''movies'', Type = ''directory''\<rparr>) = ''directory''
   \<and> Type (\<lparr>BuildLink = False, Name = ''notes.txt'', Type = ''unknown''\<rparr>)
       = Extension Unknown
   \<and> dirTemplate_entry ''/'' \<lparr>BuildLink = False, Name = ''notes.txt'', Type = ''unknown''\<rparr>
       = ''\<newline>\<newline><li>/notes.txt</li>\<newline>\<newline>''
   \<and> dirTemplate_entry ''/'' \<lparr>BuildLink = False, Name = ''notes.txt'', Type = ''text''\<rparr>
       = dirTemplate_entry ''/'' \<lparr>BuildLink = False, Name = ''notes.txt'', Type = ''unknown''\<rparr>"
proof -
  let ?infos = "[\<lparr>fi_Name = ''movies'', fi_IsDir = True\<rparr>,
                 \<lparr>fi_Name = ''notes.txt'', fi_IsDir = False\<rparr>,
                 \<lparr>fi_Name = ''clip.mp4'', fi_IsDir = False\<rparr>]"
  let ?entries = "[\<lparr>BuildLink = True, Name = ''movies'', Type = ''directory''\<rparr>,
          \<lparr>BuildLink = False, Name = ''notes.txt'', Type = ''unknown''\<rparr>,
          \<lparr>BuildLink = True, Name = ''clip.mp4'', Type = ''mp4''\<rparr>]"
  have target: "filepath_Join [''/'', ''notes.txt''] = ''/notes.txt''"
    by code_simp
  note T = listing_entry_rendering [OF scenario_root_entries, of "''/''" "''text''"]
  from T have each: "\<forall>i < length ?infos.
            (fi_IsDir (?infos ! i) \<longrightarrow> Type (?entries ! i) = ''directory'')
          \<and> (\<not> BuildLink (?entries ! i) \<longrightarrow>
               dirTemplate_entry ''/'' (?entries ! i)
                 = ''\<newline>\<newline><li>'' @ filepath_Join [''/'', fi_Name (?infos ! i)]
                   @ ''</li>\<newline>\<newline>'')
          \<and> dirTemplate_entry ''/'' ((?entries ! i)\<lparr>Type := ''text''\<rparr>)
               = dirTemplate_entry ''/'' (?entries ! i)"
    by blast
  from each [rule_format, of 0] have 0: "Type (?entries ! 0) = ''directory''"
    by simp
  from each [rule_format, of 1]
  have 1: "dirTemplate_entry ''/'' (?entries ! 1)
             = ''\<newline>\<newline><li>'' @ filepath_Join [''/'', fi_Name (?infos ! 1)] @ ''</li>\<newline>\<newline>''
           \<and> dirTemplate_entry ''/'' ((?entries ! 1)\<lparr>Type := ''text''\<rparr>)
               = dirTemplate_entry ''/'' (?entries ! 1)"
    by simp
  from 0 1 show ?thesis
    by (simp add: target Unknown_def)
qed

text \<open>
  C8 as it is worded fails: in the listing of the scenario's root, the entry of
  \<^verbatim>\<open>notes.txt\<close> has the label \<^verbatim>\<open>unknown\<close> and that of \<^verbatim>\<open>movies\<close> the label
  \<^verbatim>\<open>directory\<close>, and the page shows neither; the whole body is the following text.
\<close>

theorem listing_type_label_counterexample:
  "dirEntries scenario ''/srv/media''
     [\<lparr>fi_Name = ''movies'', fi_IsDir = True\<rparr>,
      \<lparr>fi_Name = ''notes.txt'', fi_IsDir = False\<rparr>,
      \<lparr>fi_Name = ''clip.mp4'', fi_IsDir = False\<rparr>] []
   = Inr [\<lparr>BuildLink = True, Name = ''movies'', Type = ''directory''\<rparr>,
          \<lparr>BuildLink = False, Name = ''notes.txt'', Type = ''unknown''\<rparr>,
          \<lparr>BuildLink = True, Name = ''clip.mp4'', Type = ''mp4''\<rparr>]
   \<and> body (handlerFunc ''/srv/media'' scenario (new_response None) ''/'')
     = ''<html>\<newline><head>\<newline><title>/srv/media</title>\<newline><style>\<newline>body {\<newline>  font-size: xx-large;\<newline>}\<newline></style>\<newline></head>\<newline><body>\<newline><ul>\<newline>\<newline>''
       @ (''\<newline>\<newline><li><a href='' @ [CHR 0x22] @ ''/movies'' @ [CHR 0x22] @ ''>/movies</a></li>\<newline>\<newline>''
          @ ''\<newline>\<newline><li>/notes.txt</li>\<newline>\<newline>''
          @ ''\<newline>\<newline><li><a href='' @ [CHR 0x22] @ ''/clip.mp4'' @ [CHR 0x22] @ ''>/clip.mp4</a></li>\<newline>\<newline>'')
       @ ''\<newline></ul>\<newline></body>\<newline></html>\<newline>''"
proof -
  let ?infos = "[\<lparr>fi_Name = ''movies'', fi_IsDir = True\<rparr>,
                 \<lparr>fi_Name = ''notes.txt'', fi_IsDir = False\<rparr>,
                 \<lparr>fi_Name = ''clip.mp4'', fi_IsDir = False\<rparr>]"
  let ?dir = "\<lparr>f_Name = ''/srv/media'', f_node = directory ?infos\<rparr>"
  have d: "\<not> filepath_HasPrefix ''/'' ''/_download''"
    by (simp add: filepath_HasPrefix_def)
  have a: "filepath_Abs (Getwd scenario) (filepath_Join [''/srv/media'', ''/'']) = Inr ''/srv/media''"
    by code_simp
  have parent: "filepath_Join [''/'', ''/''] = ''/''"
    by code_simp
  have t1: "filepath_Join [''/'', ''movies''] = ''/movies''" by code_simp
  have t2: "filepath_Join [''/'', ''notes.txt''] = ''/notes.txt''" by code_simp
  have t3: "filepath_Join [''/'', ''clip.mp4''] = ''/clip.mp4''" by code_simp
  have rd: "n_Readdir (f_node ?dir) = Inr ?infos"
    by (simp add: directory_def)
  have head: "dirTemplate_head ''/srv/media'' = ''<html>\<newline><head>\<newline><title>/srv/media</title>\<newline><style>\<newline>body {\<newline>  font-size: xx-large;\<newline>}\<newline></style>\<newline></head>\<newline><body>\<newline><ul>\<newline>\<newline>''"
    by (simp add: dirTemplate_head_def text_lines_def)
  have tail: "dirTemplate_tail = ''\<newline></ul>\<newline></body>\<newline></html>\<newline>''"
    by (simp add: dirTemplate_tail_def text_lines_def)
  have items: "concat (map (dirTemplate_entry ''/'')
        [\<lparr>BuildLink = True, Name = ''movies'', Type = ''directory''\<rparr>,
         \<lparr>BuildLink = False, Name = ''notes.txt'', Type = ''unknown''\<rparr>,
         \<lparr>BuildLink = True, Name = ''clip.mp4'', Type = ''mp4''\<rparr>])
      = ''\<newline>\<newline><li><a href='' @ [CHR 0x22] @ ''/movies'' @ [CHR 0x22] @ ''>/movies</a></li>\<newline>\<newline>''
        @ ''\<newline>\<newline><li>/notes.txt</li>\<newline>\<newline>''
        @ ''\<newline>\<newline><li><a href='' @ [CHR 0x22] @ ''/clip.mp4'' @ [CHR 0x22] @ ''>/clip.mp4</a></li>\<newline>\<newline>''"
    by (simp add: dirTemplate_entry_text Let_def t1 t2 t3)
  have route: "handlerFunc ''/srv/media'' scenario (new_response None) ''/''
          = handleDir scenario (new_response None) ''/'' ?dir"
    using d by (simp add: handlerFunc_def a filepath_HasPrefix_def scenario_Open_root
                          directory_def)
  have "body (handleDir scenario (new_response None) ''/'' ?dir)
          = dirTemplate ''/srv/media''
              [\<lparr>BuildLink = True, Name = ''movies'', Type = ''directory''\<rparr>,
               \<lparr>BuildLink = False, Name = ''notes.txt'', Type = ''unknown''\<rparr>,
               \<lparr>BuildLink = True, Name = ''clip.mp4'', Type = ''mp4''\<rparr>] ''/''"
    using handleDir_listing [OF rd, of scenario _ "''/''"] scenario_root_entries
    by (simp add: parent)
  then have page: "body (handlerFunc ''/srv/media'' scenario (new_response None) ''/'')
     = ''<html>\<newline><head>\<newline><title>/srv/media</title>\<newline><style>\<newline>body {\<newline>  font-size: xx-large;\<newline>}\<newline></style>\<newline></head>\<newline><body>\<newline><ul>\<newline>\<newline>''
       @ (''\<newline>\<newline><li><a href='' @ [CHR 0x22] @ ''/movies'' @ [CHR 0x22] @ ''>/movies</a></li>\<newline>\<newline>''
          @ ''\<newline>\<newline><li>/notes.txt</li>\<newline>\<newline>''
          @ ''\<newline>\<newline><li><a href='' @ [CHR 0x22] @ ''/clip.mp4'' @ [CHR 0x22] @ ''>/clip.mp4</a></li>\<newline>\<newline>'')
       @ ''\<newline></ul>\<newline></body>\<newline></html>\<newline>''"
    by (simp only: route dirTemplate_def head tail items)
  show ?thesis
    by (rule conjI [OF scenario_root_entries page])
qed

subsection \<open>Response headers\<close>

lemma Header_Values_after_write:
  assumes "k \<noteq> ''Content-Length''" "k \<noteq> ''Content-Type''" "k \<noteq> ''X-Content-Type-Options''"
  shows "Header_Values (case Write w out of
                          (w', Some err) \<Rightarrow> http_Error w' (message err) code
                        | (w', None) \<Rightarrow> w') k
           = Header_Values w k"
proof -
  obtain w' r where wr: "Write w out = (w', r)" by (cases "Write w out")
  then have "Header_Values w' k = Header_Values w k"
    using Header_Values_Write [of w out k] by simp
  with wr assms show ?thesis
    by (cases r) (simp_all add: Header_Values_http_Error)
qed

lemma Header_Values_after_copy:
  assumes "k \<noteq> ''Content-Length''" "k \<noteq> ''Content-Type''" "k \<noteq> ''X-Content-Type-Options''"
  shows "Header_Values (case io_Copy w f of
                          (w', Some err) \<Rightarrow> http_Error w' (message err) code
                        | (w', None) \<Rightarrow> w') k
           = Header_Values w k"
proof (cases "n_data (f_node f) = []")
  case True
  with assms show ?thesis
    by (cases "n_rderr (f_node f)") (simp_all add: io_Copy_def Header_Values_http_Error)
next
  case False
  obtain w' r where wr: "Write w (n_data (f_node f)) = (w', r)"
    by (cases "Write w (n_data (f_node f))")
  then have same: "Header_Values w' k = Header_Values w k"
    using Header_Values_Write [of w "n_data (f_node f)" k] by simp
  from False wr assms same show ?thesis
    by (cases r; cases "n_rderr (f_node f)")
       (simp_all add: io_Copy_def Header_Values_http_Error)
qed

lemma handleDir_header:
  "Header_Values (handleDir e (new_response s) p f) ''X-Mediaweb-Handler'' = [''dir'']"
  by (simp add: handleDir_def Let_def Execute_def Header_Values_after_write
                Header_Values_http_Error split: sum.split)

lemma handleFile_header:
  "Header_Values (handleFile e (new_response s) p f) ''X-Mediaweb-Handler'' = [''file'']"
  by (simp add: handleFile_def Let_def Execute_def Header_Values_after_write
                Header_Values_http_Error split: sum.split)

lemma handleFile_type_header:
  "MatchFile e (f_Name f) = Inr ft \<Longrightarrow>
   Header_Values (handleFile e (new_response s) p f) ''X-Mediaweb-Type'' = [Sprintf_Type ft]"
  by (simp add: handleFile_def Let_def Execute_def Header_Values_after_write)

lemma handleDownload_header:
  "Header_Values (handleDownload e (new_response s) p root) ''X-Mediaweb-Handler''
     = [''download'']"
  by (simp add: handleDownload_def Let_def Header_Values_after_copy
                Header_Values_http_Error split: sum.split)

lemma headers_Write: "headers (fst (Write w bs)) = headers w"
  by (simp add: Write_def WriteHeader_def Let_def split: option.split prod.split)

text \<open>What \<^verbatim>\<open>http.Error\<close> sends on a response that has no header yet.\<close>

lemma headers_http_Error_new:
  "headers (http_Error (new_response s) err code)
     = [(''Content-Type'', ''text/plain; charset=utf-8''),
        (''X-Content-Type-Options'', ''nosniff'')]"
  by (simp add: http_Error_def Let_def headers_Write Header_Set_def Header_Add_def
                Header_Del_def WriteHeader_def new_response_def)

lemma handleFile_no_type_header:
  "MatchFile e (f_Name f) = Inl err \<Longrightarrow>
   Header_Values (handleFile e (new_response s) p f) ''X-Mediaweb-Type'' = []"
  by (simp add: handleFile_def Let_def Header_Values_http_Error)

text \<open>
  C6, as the code has it. Each of the three handlers adds the header
  \<^verbatim>\<open>X-Mediaweb-Handler\<close> before anything else, so every response a handler produces, its
  error responses included, carries exactly one value: \<^verbatim>\<open>dir\<close>, \<^verbatim>\<open>file\<close> or
  \<^verbatim>\<open>download\<close>. The file handler's response carries \<^verbatim>\<open>X-Mediaweb-Type\<close> with the printed
  sniffed type when sniffing succeeded, and no such header when it failed. The router adds
  no header of its own: a request it hands to a handler carries that handler's value, and
  each of the replies it sends itself (400 when the path cannot be resolved, 400 when the
  resolved path lacks the root as prefix, 400 when the open fails, 500 when the stat fails)
  carries no \<^verbatim>\<open>X-Mediaweb-Handler\<close> header: its headers are the two that \<^verbatim>\<open>http.Error\<close>
  sets.
\<close>

theorem handler_header:
  "Header_Values (handleDir e (new_response s) p f) ''X-Mediaweb-Handler'' = [''dir'']
   \<and> Header_Values (handleFile e (new_response s) p f) ''X-Mediaweb-Handler'' = [''file'']
   \<and> Header_Values (handleDownload e (new_response s) p root) ''X-Mediaweb-Handler''
       = [''download'']
   \<and> (MatchFile e (f_Name f) = Inr ft \<longrightarrow>
        Header_Values (handleFile e (new_response s) p f) ''X-Mediaweb-Type''
          = [Sprintf_Type ft])
   \<and> (MatchFile e (f_Name f) = Inl err \<longrightarrow>
        Header_Values (handleFile e (new_response s) p f) ''X-Mediaweb-Type'' = [])
   \<and> (let reply = handlerFunc root e (new_response s) p;
           plain = [(''Content-Type'', ''text/plain; charset=utf-8''),
                    (''X-Content-Type-Options'', ''nosniff'')]
       in (filepath_HasPrefix p downloadPrefix \<longrightarrow>
             Header_Values reply ''X-Mediaweb-Handler'' = [''download''])
        \<and> (\<not> filepath_HasPrefix p downloadPrefix \<longrightarrow>
             (filepath_Abs (Getwd e) (filepath_Join [root, p]) = Inl err0 \<longrightarrow>
                Header_Values reply ''X-Mediaweb-Handler'' = [] \<and> headers reply = plain)
           \<and> (filepath_Abs (Getwd e) (filepath_Join [root, p]) = Inr realPath \<longrightarrow>
                (\<not> filepath_HasPrefix realPath root \<longrightarrow>
                   Header_Values reply ''X-Mediaweb-Handler'' = [] \<and> headers reply = plain)
              \<and> (filepath_HasPrefix realPath root \<longrightarrow>
                   (os_Open e realPath = Inl err1 \<longrightarrow>
                      Header_Values reply ''X-Mediaweb-Handler'' = [] \<and> headers reply = plain)
                 \<and> (os_Open e realPath = Inr g \<longrightarrow>
                      (n_Stat (f_node g) = Inl err2 \<longrightarrow>
                         Header_Values reply ''X-Mediaweb-Handler'' = []
                         \<and> headers reply = plain)
                    \<and> (n_Stat (f_node g) = Inr True \<longrightarrow>
                         Header_Values reply ''X-Mediaweb-Handler'' = [''dir''])
                    \<and> (n_Stat (f_node g) = Inr False \<longrightarrow>
                         Header_Values reply ''X-Mediaweb-Handler'' = [''file'']))))))"
proof -
  let ?reply = "handlerFunc root e (new_response s) p"
  let ?plain = "[(''Content-Type'', ''text/plain; charset=utf-8''),
                 (''X-Content-Type-Options'', ''nosniff'')]"
  have none: "Header_Values (http_Error (new_response s) msg code) ''X-Mediaweb-Handler'' = []"
    for msg code
    by (simp add: Header_Values_http_Error)
  have router:
    "(filepath_HasPrefix p downloadPrefix \<longrightarrow>
             Header_Values ?reply ''X-Mediaweb-Handler'' = [''download''])
        \<and> (\<not> filepath_HasPrefix p downloadPrefix \<longrightarrow>
             (filepath_Abs (Getwd e) (filepath_Join [root, p]) = Inl err0 \<longrightarrow>
                Header_Values ?reply ''X-Mediaweb-Handler'' = [] \<and> headers ?reply = ?plain)
           \<and> (filepath_Abs (Getwd e) (filepath_Join [root, p]) = Inr realPath \<longrightarrow>
                (\<not> filepath_HasPrefix realPath root \<longrightarrow>
                   Header_Values ?reply ''X-Mediaweb-Handler'' = [] \<and> headers ?reply = ?plain)
              \<and> (filepath_HasPrefix realPath root \<longrightarrow>
                   (os_Open e realPath = Inl err1 \<longrightarrow>
                      Header_Values ?reply ''X-Mediaweb-Handler'' = [] \<and> headers ?reply = ?plain)
                 \<and> (os_Open e realPath = Inr g \<longrightarrow>
                      (n_Stat (f_node g) = Inl err2 \<longrightarrow>
                         Header_Values ?reply ''X-Mediaweb-Handler'' = []
                         \<and> headers ?reply = ?plain)
                    \<and> (n_Stat (f_node g) = Inr True \<longrightarrow>
                         Header_Values ?reply ''X-Mediaweb-Handler'' = [''dir''])
                    \<and> (n_Stat (f_node g) = Inr False \<longrightarrow>
                         Header_Values ?reply ''X-Mediaweb-Handler'' = [''file''])))))"
    by (simp add: handlerFunc_def downloadPrefix_def none headers_http_Error_new
                  handleDir_header handleFile_header handleDownload_header)
  show ?thesis
    unfolding Let_def
    by (intro conjI)
       (rule handleDir_header, rule handleFile_header, rule handleDownload_header,
        rule impI, erule handleFile_type_header, rule impI, erule handleFile_no_type_header,
        rule router [THEN conjunct1], rule router [THEN conjunct2])
qed

text \<open>
  The scenario: the player page of \<^verbatim>\<open>clip.mp4\<close> with its two headers; the file handler
  on a target that cannot be sniffed; and the router on each of its branches: the download
  prefix, a relative root with no working directory, an escape from the root, a missing
  file, a file that cannot be examined, a directory, a file.
\<close>

theorem handler_header_witness:
  "Header_Values (handleFile scenario (new_response None) ''/clip.mp4''
      \<lparr>f_Name = ''/srv/media/clip.mp4'', f_node = regular_file ''....ftypmp42''\<rparr>)
      ''X-Mediaweb-Handler'' = [''file'']
   \<and> Header_Values (handleFile scenario (new_response None) ''/clip.mp4''
      \<lparr>f_Name = ''/srv/media/clip.mp4'', f_node = regular_file ''....ftypmp42''\<rparr>)
      ''X-Mediaweb-Type''
     = [''{MIME:{Type:video Subtype:mp4 Value:video/mp4} Extension:mp4}'']
   \<and> Header_Values (handleFile scenario (new_response None) ''/movies''
      \<lparr>f_Name = ''/srv/media/movies'', f_node = directory []\<rparr>) ''X-Mediaweb-Type'' = []
   \<and> Header_Values (handlerFunc ''/srv/media'' scenario (new_response None)
                      ''/_download/clip.mp4'') ''X-Mediaweb-Handler'' = [''download'']
   \<and> Header_Values (handlerFunc ''media'' (scenario\<lparr>Getwd := Inl (Error ''getwd failed'')\<rparr>)
                      (new_response None) ''/x'') ''X-Mediaweb-Handler'' = []
   \<and> Header_Values (handlerFunc ''/srv/media'' scenario (new_response None) ''/../outside'')
        ''X-Mediaweb-Handler'' = []
   \<and> Header_Values (handlerFunc ''/srv/media'' scenario (new_response None) ''/missing'')
        ''X-Mediaweb-Handler'' = []
   \<and> Header_Values (handlerFunc ''/srv/media''
                (scenario\<lparr>lookup := (\<lambda>p. Inr ((regular_file [])\<lparr>n_Stat := Inl (Error ''stat failed'')\<rparr>))\<rparr>)
                (new_response None) ''/a'') ''X-Mediaweb-Handler'' = []
   \<and> Header_Values (handlerFunc ''/srv/media'' scenario (new_response None) ''/movies'')
        ''X-Mediaweb-Handler'' = [''dir'']
   \<and> Header_Values (handlerFunc ''/srv/media'' scenario (new_response None) ''/clip.mp4'')
        ''X-Mediaweb-Handler'' = [''file'']"
proof -
  let ?w = "new_response None"
  let ?H = "''X-Mediaweb-Handler''"
  let ?nowd = "scenario\<lparr>Getwd := Inl (Error ''getwd failed'')\<rparr>"
  let ?nostat = "scenario\<lparr>lookup := (\<lambda>p. Inr ((regular_file [])\<lparr>n_Stat := Inl (Error ''stat failed'')\<rparr>))\<rparr>"
  let ?clip = "\<lparr>f_Name = ''/srv/media/clip.mp4'', f_node = regular_file ''....ftypmp42''\<rparr>"
  let ?movies = "\<lparr>f_Name = ''/srv/media/movies'', f_node = directory []\<rparr>"
  let ?a = "\<lparr>f_Name = ''/srv/media/a'',
            f_node = (regular_file [])\<lparr>n_Stat := Inl (Error ''stat failed'')\<rparr>\<rparr>"

  have m: "MatchFile scenario (f_Name ?clip) = Inr mp4"
    by (simp add: scenario_Match_clip)
  have printed: "Sprintf_Type mp4 = ''{MIME:{Type:video Subtype:mp4 Value:video/mp4} Extension:mp4}''"
    by (simp add: Sprintf_Type_def mp4_def)
  from handler_header [where e = scenario and s = None and p = "''/clip.mp4''" and f = ?clip
                         and ft = mp4] m
  have f1: "Header_Values (handleFile scenario ?w ''/clip.mp4'' ?clip) ?H = [''file'']"
   and f2: "Header_Values (handleFile scenario ?w ''/clip.mp4'' ?clip) ''X-Mediaweb-Type''
              = [Sprintf_Type mp4]"
    by blast+
  from f2 have f2': "Header_Values (handleFile scenario ?w ''/clip.mp4'' ?clip) ''X-Mediaweb-Type''
              = [''{MIME:{Type:video Subtype:mp4 Value:video/mp4} Extension:mp4}'']"
    by (simp only: printed)

  have mm: "MatchFile scenario (f_Name ?movies) = Inl (Error ''is a directory'')"
    by (simp add: MatchFile_def os_Open_def scenario_def scenario_lookup_def first_Read_def
                  directory_def)
  from handler_header [where e = scenario and s = None and p = "''/movies''" and f = ?movies
                         and err = "Error ''is a directory''"] mm
  have f3: "Header_Values (handleFile scenario ?w ''/movies'' ?movies) ''X-Mediaweb-Type'' = []"
    by blast

  have d1: "filepath_HasPrefix ''/_download/clip.mp4'' downloadPrefix"
    by (simp add: filepath_HasPrefix_def downloadPrefix_def)
  from handler_header [where e = scenario and s = None and p = "''/_download/clip.mp4''"
                         and root = "''/srv/media''", unfolded Let_def] d1
  have 1: "Header_Values (handlerFunc ''/srv/media'' scenario ?w ''/_download/clip.mp4'') ?H
             = [''download'']"
    by blast

  have d2: "\<not> filepath_HasPrefix ''/x'' downloadPrefix"
    by (simp add: filepath_HasPrefix_def downloadPrefix_def)
  have j2: "filepath_Join [''media'', ''/x''] = ''media/x''"
    by code_simp
  have a2: "filepath_Abs (Getwd ?nowd) (filepath_Join [''media'', ''/x''])
              = Inl (Error ''getwd failed'')"
    by (simp add: j2 filepath_Abs_def filepath_IsAbs_def filepath_HasPrefix_def)
  from handler_header [where e = ?nowd and s = None and p = "''/x''" and root = "''media''"
                         and ?err0.0 = "Error ''getwd failed''", unfolded Let_def] d2 a2
  have 2: "Header_Values (handlerFunc ''media'' ?nowd ?w ''/x'') ?H = []"
    by blast

  have d3: "\<not> filepath_HasPrefix ''/../outside'' downloadPrefix"
    by (simp add: filepath_HasPrefix_def downloadPrefix_def)
  have a3: "filepath_Abs (Getwd scenario) (filepath_Join [''/srv/media'', ''/../outside''])
              = Inr ''/srv/outside''"
    by code_simp
  have o3: "\<not> filepath_HasPrefix ''/srv/outside'' ''/srv/media''"
    by (simp add: filepath_HasPrefix_def)
  from handler_header [where e = scenario and s = None and p = "''/../outside''"
                         and root = "''/srv/media''" and realPath = "''/srv/outside''",
                       unfolded Let_def] d3 a3 o3
  have 3: "Header_Values (handlerFunc ''/srv/media'' scenario ?w ''/../outside'') ?H = []"
    by blast

  have d4: "\<not> filepath_HasPrefix ''/missing'' downloadPrefix"
    by (simp add: filepath_HasPrefix_def downloadPrefix_def)
  have a4: "filepath_Abs (Getwd scenario) (filepath_Join [''/srv/media'', ''/missing''])
              = Inr ''/srv/media/missing''"
    by code_simp
  have i4: "filepath_HasPrefix ''/srv/media/missing'' ''/srv/media''"
    by (simp add: filepath_HasPrefix_def)
  have o4: "os_Open scenario ''/srv/media/missing'' = Inl (Error ''no such file or directory'')"
    by (simp add: os_Open_def scenario_def scenario_lookup_def)
  from handler_header [where e = scenario and s = None and p = "''/missing''"
                         and root = "''/srv/media''" and realPath = "''/srv/media/missing''"
                         and ?err1.0 = "Error ''no such file or directory''",
                       unfolded Let_def] d4 a4 i4 o4
  have 4: "Header_Values (handlerFunc ''/srv/media'' scenario ?w ''/missing'') ?H = []"
    by blast

  have d5: "\<not> filepath_HasPrefix ''/a'' downloadPrefix"
    by (simp add: filepath_HasPrefix_def downloadPrefix_def)
  have j5: "filepath_Join [''/srv/media'', ''/a''] = ''/srv/media/a''"
    by code_simp
  have c5: "filepath_Clean ''/srv/media/a'' = ''/srv/media/a''"
    by code_simp
  have a5: "filepath_Abs (Getwd ?nostat) (filepath_Join [''/srv/media'', ''/a''])
              = Inr ''/srv/media/a''"
    by (simp add: j5 c5 filepath_Abs_def filepath_IsAbs_def filepath_HasPrefix_def)
  have i5: "filepath_HasPrefix ''/srv/media/a'' ''/srv/media''"
    by (simp add: filepath_HasPrefix_def)
  have o5: "os_Open ?nostat ''/srv/media/a'' = Inr ?a"
    by (simp add: os_Open_def)
  have s5: "n_Stat (f_node ?a) = Inl (Error ''stat failed'')"
    by simp
  from handler_header [where e = ?nostat and s = None and p = "''/a''"
                         and root = "''/srv/media''" and realPath = "''/srv/media/a''"
                         and g = ?a and ?err2.0 = "Error ''stat failed''",
                       unfolded Let_def] d5 a5 i5 o5 s5
  have 5: "Header_Values (handlerFunc ''/srv/media'' ?nostat ?w ''/a'') ?H = []"
    by blast

  have d6: "\<not> filepath_HasPrefix ''/movies'' downloadPrefix"
    by (simp add: filepath_HasPrefix_def downloadPrefix_def)
  have a6: "filepath_Abs (Getwd scenario) (filepath_Join [''/srv/media'', ''/movies''])
              = Inr ''/srv/media/movies''"
    by code_simp
  have i6: "filepath_HasPrefix ''/srv/media/movies'' ''/srv/media''"
    by (simp add: filepath_HasPrefix_def)
  have o6: "os_Open scenario ''/srv/media/movies'' = Inr ?movies"
    by (simp add: os_Open_def scenario_def scenario_lookup_def)
  have s6: "n_Stat (f_node ?movies) = Inr True"
    by (simp add: directory_def)
  from handler_header [where e = scenario and s = None and p = "''/movies''"
                         and root = "''/srv/media''" and realPath = "''/srv/media/movies''"
                         and g = ?movies, unfolded Let_def] d6 a6 i6 o6 s6
  have 6: "Header_Values (handlerFunc ''/srv/media'' scenario ?w ''/movies'') ?H = [''dir'']"
    by blast

  have d7: "\<not> filepath_HasPrefix ''/clip.mp4'' downloadPrefix"
    by (simp add: filepath_HasPrefix_def downloadPrefix_def)
  have a7: "filepath_Abs (Getwd scenario) (filepath_Join [''/srv/media'', ''/clip.mp4''])
              = Inr ''/srv/media/clip.mp4''"
    by code_simp
  have i7: "filepath_HasPrefix ''/srv/media/clip.mp4'' ''/srv/media''"
    by (simp add: filepath_HasPrefix_def)
  have s7: "n_Stat (f_node ?clip) = Inr False"
    by (simp add: regular_file_def)
  from handler_header [where e = scenario and s = None and p = "''/clip.mp4''"
                         and root = "''/srv/media''" and realPath = "''/srv/media/clip.mp4''"
                         and g = ?clip, unfolded Let_def] d7 a7 i7 scenario_Open_clip s7
  have 7: "Header_Values (handlerFunc ''/srv/media'' scenario ?w ''/clip.mp4'') ?H = [''file'']"
    by blast

  show ?thesis
    by (intro conjI) (rule f1, rule f2', rule f3, rule 1, rule 2, rule 3, rule 4, rule 5,
                       rule 6, rule 7)
qed

text \<open>
  C6 as it is worded fails: the specification's escape attempt \<^verbatim>\<open>/../outside\<close> is answered
  by the router with status 400 and without the header.
\<close>

theorem handler_header_counterexample:
  "status (handlerFunc ''/srv/media'' scenario (new_response None) ''/../outside'') = Some 400
   \<and> Header_Values (handlerFunc ''/srv/media'' scenario (new_response None) ''/../outside'')
        ''X-Mediaweb-Handler'' = []
   \<and> headers (handlerFunc ''/srv/media'' scenario (new_response None) ''/../outside'')
       = [(''Content-Type'', ''text/plain; charset=utf-8''),
          (''X-Content-Type-Options'', ''nosniff'')]"
proof -
  have a: "filepath_Abs (Getwd scenario) (filepath_Join [''/srv/media'', ''/../outside''])
              = Inr ''/srv/outside''"
    by code_simp
  have "handlerFunc ''/srv/media'' scenario (new_response None) ''/../outside''
          = http_Error (new_response None) ''outside allowed path'' 400"
    by (simp add: handlerFunc_def a filepath_HasPrefix_def)
  then show ?thesis
    by (simp add: http_Error_def Let_def Header_Set_def Header_Add_def Header_Del_def
                  WriteHeader_def Write_def new_response_def Header_Values_def)
qed

subsection \<open>The player page\<close>

lemma handleFile_page:
  assumes "MatchFile e (f_Name f) = Inr ft"
  shows "handleFile e (new_response None) p f =
           \<lparr>status = Some 200,
            headers = [(''X-Mediaweb-Handler'', ''file''),
                       (''X-Mediaweb-Type'', Sprintf_Type ft)],
            body = fileTemplate downloadPrefix (filepath_Join [''/'', p]) (MIME_Value (MIME ft)),
            sink = None\<rparr>"
  using assms
  by (simp add: handleFile_def Let_def Execute_def Write_unlimited Header_Add_def
                new_response_def)

lemma Match_Unknown:
  "\<forall>m \<in> set table. \<not> fst m buf \<Longrightarrow> Match table buf = Unknown"
  by (induction table) (simp_all add: Match_def)

lemma fileTemplate_source_text:
  "fileTemplate_source src type =
     ''    <source src='' @ [CHR 0x22] @ src @ [CHR 0x22] @ '' type='' @ [CHR 0x27] @ type
     @ [CHR 0x27] @ ''>''"
  by (simp add: fileTemplate_source_def)

text \<open>
  C5, as the code has it. A request that does not start with the download prefix, passes
  the check and names a readable target that is not a directory gets (on a connection that
  accepts every write) the player page with status 200, whatever the sniffed type is. The
  \<^verbatim>\<open>type\<close> attribute is the sniffed MIME value, empty when no signature matches. The
  \<^verbatim>\<open>src\<close> attribute is the download prefix joined with the template's \<^verbatim>\<open>name\<close>, which
  is \<^verbatim>\<open>/\<close> joined with the request path, that is, the request path cleaned as a
  rooted path: the attribute is the download prefix followed by that cleaned path (by
  nothing when the cleaned path is \<^verbatim>\<open>/\<close>). For a request path that is already a clean
  rooted path, this is the download prefix joined with the request path.
\<close>

theorem player_page:
  assumes "\<not> filepath_HasPrefix p downloadPrefix"
      and "filepath_Abs (Getwd e) (filepath_Join [root, p]) = Inr realPath"
      and "filepath_HasPrefix realPath root"
      and "lookup e realPath = Inr node"
      and "n_Stat node = Inr False"
      and "n_data node \<noteq> [] \<or> n_rderr node = None"
  shows "let fileType = Match (Matchers e) (take (sniff_len e) (n_data node));
             name = filepath_Join [''/'', p]
         in body (handlerFunc root e (new_response None) p)
              = fileTemplate_head
                @ fileTemplate_source (filepath_Join [downloadPrefix, name])
                    (MIME_Value (MIME fileType))
                @ fileTemplate_tail
          \<and> status_code (handlerFunc root e (new_response None) p) = 200
          \<and> Header_Values (handlerFunc root e (new_response None) p) ''X-Mediaweb-Type''
              = [Sprintf_Type fileType]
          \<and> filepath_Join [downloadPrefix, name]
              = downloadPrefix @ (if name = ''/'' then [] else name)
          \<and> (filepath_IsAbs p \<longrightarrow> filepath_Clean p = p \<longrightarrow> name = p)
          \<and> ((\<forall>m \<in> set (Matchers e). \<not> fst m (take (sniff_len e) (n_data node))) \<longrightarrow>
                MIME_Value (MIME fileType) = [])"
proof -
  let ?ft = "Match (Matchers e) (take (sniff_len e) (n_data node))"
  let ?f = "\<lparr>f_Name = realPath, f_node = node\<rparr>"
  have m: "MatchFile e (f_Name ?f) = Inr ?ft"
    using assms(4,6) by (simp add: MatchFile_readable)
  have "handlerFunc root e (new_response None) p = handleFile e (new_response None) p ?f"
    using assms(1,2,3,4,5) by (simp add: handlerFunc_def downloadPrefix_def os_Open_def)
  then have page: "handlerFunc root e (new_response None) p =
           \<lparr>status = Some 200,
            headers = [(''X-Mediaweb-Handler'', ''file''),
                       (''X-Mediaweb-Type'', Sprintf_Type ?ft)],
            body = fileTemplate downloadPrefix (filepath_Join [''/'', p]) (MIME_Value (MIME ?ft)),
            sink = None\<rparr>"
    by (simp only: handleFile_page [OF m])
  have 1: "body (handlerFunc root e (new_response None) p)
              = fileTemplate_head
                @ fileTemplate_source (filepath_Join [downloadPrefix, filepath_Join [''/'', p]])
                    (MIME_Value (MIME ?ft))
                @ fileTemplate_tail"
    by (simp add: page fileTemplate_def)
  have 2: "status_code (handlerFunc root e (new_response None) p) = 200"
    by (simp add: page status_code_def)
  have 3: "Header_Values (handlerFunc root e (new_response None) p) ''X-Mediaweb-Type''
              = [Sprintf_Type ?ft]"
    by (simp add: page Header_Values_def)
  have 4: "filepath_Join [downloadPrefix, filepath_Join [''/'', p]]
              = downloadPrefix @ (if filepath_Join [''/'', p] = ''/'' then []
                                  else filepath_Join [''/'', p])"
    by (rule Join_downloadPrefix_rooted)
  have 5: "filepath_IsAbs p \<longrightarrow> filepath_Clean p = p \<longrightarrow> filepath_Join [''/'', p] = p"
    by (simp add: Join_root_clean)
  have 6: "(\<forall>m \<in> set (Matchers e). \<not> fst m (take (sniff_len e) (n_data node))) \<longrightarrow>
                MIME_Value (MIME ?ft) = []"
    by (simp add: Match_Unknown Unknown_def)
  show ?thesis
    unfolding Let_def
    by (intro conjI) (rule 1, rule 2, rule 3, rule 4, rule 5, rule 6)
qed

text \<open>
  The scenario: \<^verbatim>\<open>/clip.mp4\<close> gets a player whose source is \<^verbatim>\<open>/_download/clip.mp4\<close> with
  type \<^verbatim>\<open>video/mp4\<close>; \<^verbatim>\<open>/notes.txt\<close>, of unknown type, gets a player too, with an empty
  type.
\<close>

theorem player_page_witness:
  "body (handlerFunc ''/srv/media'' scenario (new_response None) ''/clip.mp4'')
     = fileTemplate_head
       @ (''    <source src='' @ [CHR 0x22] @ ''/_download/clip.mp4'' @ [CHR 0x22]
          @ '' type='' @ [CHR 0x27] @ ''video/mp4'' @ [CHR 0x27] @ ''>'')
       @ fileTemplate_tail
   \<and> filepath_Join [downloadPrefix, ''/clip.mp4''] = ''/_download/clip.mp4''
   \<and> body (handlerFunc ''/srv/media'' scenario (new_response None) ''/notes.txt'')
     = fileTemplate_head
       @ (''    <source src='' @ [CHR 0x22] @ ''/_download/notes.txt'' @ [CHR 0x22]
          @ '' type='' @ [CHR 0x27] @ [] @ [CHR 0x27] @ ''>'')
       @ fileTemplate_tail
   \<and> status_code (handlerFunc ''/srv/media'' scenario (new_response None) ''/notes.txt'') = 200"
proof -
  have d1: "\<not> filepath_HasPrefix ''/clip.mp4'' downloadPrefix"
    by (simp add: filepath_HasPrefix_def downloadPrefix_def)
  have a1: "filepath_Abs (Getwd scenario) (filepath_Join [''/srv/media'', ''/clip.mp4''])
              = Inr ''/srv/media/clip.mp4''"
    by code_simp
  have i1: "filepath_HasPrefix ''/srv/media/clip.mp4'' ''/srv/media''"
    by (simp add: filepath_HasPrefix_def)
  have n1: "lookup scenario ''/srv/media/clip.mp4'' = Inr (regular_file ''....ftypmp42'')"
    by (simp add: scenario_def scenario_lookup_def)
  have s1: "n_Stat (regular_file ''....ftypmp42'') = Inr False"
    by (simp add: regular_file_def)
  have r1: "n_data (regular_file ''....ftypmp42'') \<noteq> [] \<or> n_rderr (regular_file ''....ftypmp42'') = None"
    by (simp add: regular_file_def)
  have abs1: "filepath_IsAbs ''/clip.mp4''"
    by (simp add: filepath_IsAbs_def filepath_HasPrefix_def)
  have cl1: "filepath_Clean ''/clip.mp4'' = ''/clip.mp4''"
    by code_simp
  have ft1: "MIME_Value (MIME (Match (Matchers scenario)
               (take (sniff_len scenario) (n_data (regular_file ''....ftypmp42''))))) = ''video/mp4''"
    by (simp add: scenario_sniffer regular_file_def Match_def mp4_def)
  have j1: "filepath_Join [downloadPrefix, ''/clip.mp4''] = ''/_download/clip.mp4''"
    by code_simp
  from player_page [OF d1 a1 i1 n1 s1 r1]
  have page1: "body (handlerFunc ''/srv/media'' scenario (new_response None) ''/clip.mp4'')
              = fileTemplate_head
                @ fileTemplate_source (filepath_Join [downloadPrefix, filepath_Join [''/'', ''/clip.mp4'']])
                    (MIME_Value (MIME (Match (Matchers scenario)
                       (take (sniff_len scenario) (n_data (regular_file ''....ftypmp42''))))))
                @ fileTemplate_tail"
   and name1: "filepath_IsAbs ''/clip.mp4'' \<longrightarrow> filepath_Clean ''/clip.mp4'' = ''/clip.mp4''
                 \<longrightarrow> filepath_Join [''/'', ''/clip.mp4''] = ''/clip.mp4''"
    unfolding Let_def by blast+
  from name1 abs1 cl1 have nm1: "filepath_Join [''/'', ''/clip.mp4''] = ''/clip.mp4''"
    by blast
  have 1: "body (handlerFunc ''/srv/media'' scenario (new_response None) ''/clip.mp4'')
     = fileTemplate_head
       @ (''    <source src='' @ [CHR 0x22] @ ''/_download/clip.mp4'' @ [CHR 0x22]
          @ '' type='' @ [CHR 0x27] @ ''video/mp4'' @ [CHR 0x27] @ ''>'')
       @ fileTemplate_tail"
    by (simp only: page1 nm1 ft1 j1 fileTemplate_source_text)

  have d2: "\<not> filepath_HasPrefix ''/notes.txt'' downloadPrefix"
    by (simp add: filepath_HasPrefix_def downloadPrefix_def)
  have a2: "filepath_Abs (Getwd scenario) (filepath_Join [''/srv/media'', ''/notes.txt''])
              = Inr ''/srv/media/notes.txt''"
    by code_simp
  have i2: "filepath_HasPrefix ''/srv/media/notes.txt'' ''/srv/media''"
    by (simp add: filepath_HasPrefix_def)
  have n2: "lookup scenario ''/srv/media/notes.txt'' = Inr (regular_file ''hello'')"
    by (simp add: scenario_def scenario_lookup_def)
  have s2: "n_Stat (regular_file ''hello'') = Inr False"
    by (simp add: regular_file_def)
  have r2: "n_data (regular_file ''hello'') \<noteq> [] \<or> n_rderr (regular_file ''hello'') = None"
    by (simp add: regular_file_def)
  have none2: "\<forall>m \<in> set (Matchers scenario).
                 \<not> fst m (take (sniff_len scenario) (n_data (regular_file ''hello'')))"
    by (simp add: scenario_sniffer regular_file_def)
  have nm2: "filepath_Join [''/'', ''/notes.txt''] = ''/notes.txt''"
    by code_simp
  have j2: "filepath_Join [downloadPrefix, ''/notes.txt''] = ''/_download/notes.txt''"
    by code_simp
  from player_page [OF d2 a2 i2 n2 s2 r2]
  have page2: "body (handlerFunc ''/srv/media'' scenario (new_response None) ''/notes.txt'')
              = fileTemplate_head
                @ fileTemplate_source (filepath_Join [downloadPrefix, filepath_Join [''/'', ''/notes.txt'']])
                    (MIME_Value (MIME (Match (Matchers scenario)
                       (take (sniff_len scenario) (n_data (regular_file ''hello''))))))
                @ fileTemplate_tail"
   and st2: "status_code (handlerFunc ''/srv/media'' scenario (new_response None) ''/notes.txt'') = 200"
   and unk2: "(\<forall>m \<in> set (Matchers scenario).
                 \<not> fst m (take (sniff_len scenario) (n_data (regular_file ''hello'')))) \<longrightarrow>
              MIME_Value (MIME (Match (Matchers scenario)
                       (take (sniff_len scenario) (n_data (regular_file ''hello''))))) = []"
    unfolding Let_def by blast+
  from unk2 none2
  have ft2: "MIME_Value (MIME (Match (Matchers scenario)
                       (take (sniff_len scenario) (n_data (regular_file ''hello''))))) = []"
    by blast
  have 2: "body (handlerFunc ''/srv/media'' scenario (new_response None) ''/notes.txt'')
     = fileTemplate_head
       @ (''    <source src='' @ [CHR 0x22] @ ''/_download/notes.txt'' @ [CHR 0x22]
          @ '' type='' @ [CHR 0x27] @ [] @ [CHR 0x27] @ ''>'')
       @ fileTemplate_tail"
    by (simp only: page2 nm2 ft2 j2 fileTemplate_source_text)
  show ?thesis
    by (intro conjI) (rule 1, rule j1, rule 2, rule st2)
qed

text \<open>
  C5 as it is worded fails: the request \<^verbatim>\<open>/../media/clip.mp4\<close> against \<^verbatim>\<open>/srv/media\<close>
  resolves to \<^verbatim>\<open>/srv/media/clip.mp4\<close> and passes the check; its player's source is
  \<^verbatim>\<open>/_download/media/clip.mp4\<close>, which is neither the download prefix joined with the
  request path (\<^verbatim>\<open>/media/clip.mp4\<close>) nor the prefix followed by the request path.
\<close>

theorem player_source_counterexample:
  "filepath_Abs (Getwd scenario) (filepath_Join [''/srv/media'', ''/../media/clip.mp4''])
     = Inr ''/srv/media/clip.mp4''
   \<and> filepath_HasPrefix ''/srv/media/clip.mp4'' ''/srv/media''
   \<and> body (handlerFunc ''/srv/media'' scenario (new_response None) ''/../media/clip.mp4'')
     = fileTemplate_head
       @ (''    <source src='' @ [CHR 0x22] @ ''/_download/media/clip.mp4'' @ [CHR 0x22]
          @ '' type='' @ [CHR 0x27] @ ''video/mp4'' @ [CHR 0x27] @ ''>'')
       @ fileTemplate_tail
   \<and> filepath_Join [downloadPrefix, ''/../media/clip.mp4''] = ''/media/clip.mp4''
   \<and> downloadPrefix @ ''/../media/clip.mp4'' = ''/_download/../media/clip.mp4''
   \<and> ''/_download/media/clip.mp4'' \<noteq> ''/media/clip.mp4''
   \<and> ''/_download/media/clip.mp4'' \<noteq> ''/_download/../media/clip.mp4''"
proof -
  have a: "filepath_Abs (Getwd scenario) (filepath_Join [''/srv/media'', ''/../media/clip.mp4''])
             = Inr ''/srv/media/clip.mp4''"
    by code_simp
  have i: "filepath_HasPrefix ''/srv/media/clip.mp4'' ''/srv/media''"
    by (simp add: filepath_HasPrefix_def)
  have d: "\<not> filepath_HasPrefix ''/../media/clip.mp4'' ''/_download''"
    by (simp add: filepath_HasPrefix_def)
  have nm: "filepath_Join [''/'', ''/../media/clip.mp4''] = ''/media/clip.mp4''"
    by code_simp
  have src: "filepath_Join [downloadPrefix, ''/media/clip.mp4''] = ''/_download/media/clip.mp4''"
    by code_simp
  have lit: "filepath_Join [downloadPrefix, ''/../media/clip.mp4''] = ''/media/clip.mp4''"
    by code_simp
  have cat: "downloadPrefix @ ''/../media/clip.mp4'' = ''/_download/../media/clip.mp4''"
    by (simp add: downloadPrefix_def)
  have st: "n_Stat (regular_file ''....ftypmp42'') = Inr False"
    by (simp add: regular_file_def)
  have route: "handlerFunc ''/srv/media'' scenario (new_response None) ''/../media/clip.mp4''
          = handleFile scenario (new_response None) ''/../media/clip.mp4''
              \<lparr>f_Name = ''/srv/media/clip.mp4'', f_node = regular_file ''....ftypmp42''\<rparr>"
    using d i by (simp add: handlerFunc_def a scenario_Open_clip st)
  have m: "MatchFile scenario (f_Name \<lparr>f_Name = ''/srv/media/clip.mp4'',
                                        f_node = regular_file ''....ftypmp42''\<rparr>) = Inr mp4"
    by (simp add: scenario_Match_clip)
  have mv: "MIME_Value (MIME mp4) = ''video/mp4''"
    by (simp add: mp4_def)
  have "body (handlerFunc ''/srv/media'' scenario (new_response None) ''/../media/clip.mp4'')
          = fileTemplate downloadPrefix (filepath_Join [''/'', ''/../media/clip.mp4''])
              (MIME_Value (MIME mp4))"
    by (simp add: route handleFile_page [OF m])
  then have page: "body (handlerFunc ''/srv/media'' scenario (new_response None) ''/../media/clip.mp4'')
     = fileTemplate_head
       @ (''    <source src='' @ [CHR 0x22] @ ''/_download/media/clip.mp4'' @ [CHR 0x22]
          @ '' type='' @ [CHR 0x27] @ ''video/mp4'' @ [CHR 0x27] @ ''>'')
       @ fileTemplate_tail"
    by (simp only: fileTemplate_def nm src mv fileTemplate_source_text)
  have ne1: "''/_download/media/clip.mp4'' \<noteq> ''/media/clip.mp4''" by simp
  have ne2: "''/_download/media/clip.mp4'' \<noteq> ''/_download/../media/clip.mp4''" by simp
  show ?thesis
    by (intro conjI) (rule a, rule i, rule page, rule lit, rule cat, rule ne1, rule ne2)
qed

subsection \<open>The path functions on examples\<close>

text \<open>
  The element-wise path functions give what the package documents: doubled separators and
  \<^verbatim>\<open>.\<close> vanish, \<^verbatim>\<open>..\<close> removes the element before it, stops at the root of a rooted
  path and accumulates in front of an unrooted one; \<^verbatim>\<open>Join\<close> skips leading empty
  elements; \<^verbatim>\<open>Rel\<close> climbs out of the base and refuses to relate a rooted and an
  unrooted path.
\<close>

lemma filepath_Clean_examples:
  "filepath_Clean [] = ''.''"
  "filepath_Clean ''/'' = ''/''"
  "filepath_Clean ''abc/'' = ''abc''"
  "filepath_Clean ''abc//def//ghi'' = ''abc/def/ghi''"
  "filepath_Clean ''//abc//'' = ''/abc''"
  "filepath_Clean ''/./abc/def'' = ''/abc/def''"
  "filepath_Clean ''abc/def/../ghi/../jkl'' = ''abc/jkl''"
  "filepath_Clean ''abc/def/../..'' = ''.''"
  "filepath_Clean ''/abc/def/../../..'' = ''/''"
  "filepath_Clean ''abc/def/../../..'' = ''..''"
  "filepath_Clean ''abc/def/../../../ghi/jkl/../../../mno'' = ''../../mno''"
  "filepath_Clean ''/../abc'' = ''/abc''"
  "filepath_Clean ''abc/../../././../def'' = ''../../def''"
  by code_simp+

lemma filepath_Join_examples:
  "filepath_Join [''a'', ''b''] = ''a/b''"
  "filepath_Join [''a'', []] = ''a''"
  "filepath_Join [[], ''b''] = ''b''"
  "filepath_Join [[], []] = []"
  "filepath_Join [''/'', ''a''] = ''/a''"
  "filepath_Join [''/'', []] = ''/''"
  "filepath_Join [''a/'', ''b''] = ''a/b''"
  "filepath_Join [''/srv/media'', ''/../media2/x''] = ''/srv/media2/x''"
  by code_simp+

lemma filepath_Rel_examples:
  "filepath_Rel ''a/b'' ''a/b/.'' = Inr ''.''"
  "filepath_Rel ''ab/cd'' ''ab/cde'' = Inr ''../cde''"
  "filepath_Rel ''a/b'' ''a/b/c/d'' = Inr ''c/d''"
  "filepath_Rel ''a/b/../c'' ''a/b'' = Inr ''../b''"
  "filepath_Rel ''/a/b/c'' ''/a/c/d'' = Inr ''../../c/d''"
  "filepath_Rel ''/a/b/c/d/'' ''/a/b/'' = Inr ''../..''"
  "filepath_Rel ''.'' ''a/b'' = Inr ''a/b''"
  "filepath_Rel ''.'' ''..'' = Inr ''..''"
  "isl (filepath_Rel ''..'' ''a'')"
  "isl (filepath_Rel ''a'' ''/a'')"
  "isl (filepath_Rel ''/a'' ''a'')"
  "filepath_Rel downloadPrefix ''/_download/a/b.mp4'' = Inr ''a/b.mp4''"
  "filepath_Rel downloadPrefix ''/_download'' = Inr ''.''"
  "filepath_Rel downloadPrefix ''/_download2/x'' = Inr ''../_download2/x''"
  by code_simp+

end
